theory Spec2Isabelle
  imports Complex_Main
begin

section \<open>Values\<close>

text \<open>
  The TypeScript sources compute with \<^verbatim>\<open>number\<close> and \<^verbatim>\<open>number | null\<close>. Finite numbers
  are modelled as \<^typ>\<open>real\<close>: arithmetic is exact and the rounding of IEEE doubles is
  abstracted. Overflow is abstracted as well, except in the momentum oscillator
  \<open>calculateRSI\<close>, whose arithmetic is modelled with the infinities of doubles (see the type
  \<open>double\<close> below). The values that are not finite numbers and that the indicator functions
  can return are constructors of their own: \<^verbatim>\<open>null\<close> (insufficient data), \<^verbatim>\<open>NaN\<close> and
  \<^verbatim>\<open>undefined\<close> (a read of \<^verbatim>\<open>prices[0]\<close> in an empty array).
  A price series is a list of finite numbers, oldest first.
\<close>

datatype jsvalue = Num real | NaN | Null | Undefined

text \<open>\<^verbatim>\<open>v ?? 0\<close>: the right operand replaces \<^verbatim>\<open>null\<close> and \<^verbatim>\<open>undefined\<close> only.\<close>

definition nullish0 :: "jsvalue \<Rightarrow> jsvalue" where
  "nullish0 v = (case v of Null \<Rightarrow> Num 0 | Undefined \<Rightarrow> Num 0 | _ \<Rightarrow> v)"

text \<open>\<^verbatim>\<open>v || 0\<close>: the right operand replaces every falsy value (\<^verbatim>\<open>0\<close>, \<^verbatim>\<open>NaN\<close>, \<^verbatim>\<open>null\<close>,
  \<^verbatim>\<open>undefined\<close>).\<close>

definition or0 :: "jsvalue \<Rightarrow> jsvalue" where
  "or0 v = (case v of Num x \<Rightarrow> Num x | _ \<Rightarrow> Num 0)"

text \<open>Conversion to a number, as the relational and arithmetic operators do it: \<^verbatim>\<open>null\<close>
  converts to \<^verbatim>\<open>0\<close>, \<^verbatim>\<open>undefined\<close> to \<^verbatim>\<open>NaN\<close> (here \<open>None\<close>).\<close>

definition toNumber :: "jsvalue \<Rightarrow> real option" where
  "toNumber v = (case v of Num x \<Rightarrow> Some x | Null \<Rightarrow> Some 0 | _ \<Rightarrow> None)"

text \<open>\<^verbatim>\<open>a > b\<close> and \<^verbatim>\<open>a < b\<close>: a comparison with \<^verbatim>\<open>NaN\<close> is false.\<close>

definition js_gt :: "jsvalue \<Rightarrow> jsvalue \<Rightarrow> bool" where
  "js_gt a b = (case (toNumber a, toNumber b) of (Some x, Some y) \<Rightarrow> x > y | _ \<Rightarrow> False)"

definition js_lt :: "jsvalue \<Rightarrow> jsvalue \<Rightarrow> bool" where
  "js_lt a b = (case (toNumber a, toNumber b) of (Some x, Some y) \<Rightarrow> x < y | _ \<Rightarrow> False)"

text \<open>\<^verbatim>\<open>a - b\<close> and \<^verbatim>\<open>Math.abs(a)\<close>.\<close>

definition js_sub :: "jsvalue \<Rightarrow> jsvalue \<Rightarrow> jsvalue" where
  "js_sub a b = (case (toNumber a, toNumber b) of (Some x, Some y) \<Rightarrow> Num (x - y) | _ \<Rightarrow> NaN)"

definition js_abs :: "jsvalue \<Rightarrow> jsvalue" where
  "js_abs a = (case toNumber a of Some x \<Rightarrow> Num \<bar>x\<bar> | None \<Rightarrow> NaN)"

text \<open>\<^verbatim>\<open>s.includes(sub)\<close>: \<open>sub\<close> occurs in \<open>s\<close> as a contiguous substring.\<close>

fun str_includes :: "string \<Rightarrow> string \<Rightarrow> bool" where
  "str_includes [] sub = (sub = [])"
| "str_includes (c # cs) sub = (take (length sub) (c # cs) = sub \<or> str_includes cs sub)"

section \<open>Indicators (technical-analysis.ts)\<close>

text \<open>\<^verbatim>\<open>xs.reduce((a, b) => a + b, 0)\<close>.\<close>

definition reduce_add :: "real list \<Rightarrow> real" where
  "reduce_add xs = foldl (\<lambda>a b. a + b) 0 xs"

text \<open>\<^verbatim>\<open>xs.slice(-n)\<close> for a natural \<open>n\<close>: the last \<open>n\<close> elements, all of them when there are
  fewer; \<^verbatim>\<open>slice(-0)\<close> is \<^verbatim>\<open>slice(0)\<close>, the whole array.\<close>

definition slice_last :: "nat \<Rightarrow> 'a list \<Rightarrow> 'a list" where
  "slice_last n xs = (if n = 0 then xs else drop (length xs - n) xs)"

text \<open>
  The period is a natural number, as at every call site (7, 25, \<^verbatim>\<open>Math.min(99, length - 1)\<close> on a
  non-empty series, 5, 10, 9, 21, 12, 26, 14). With period \<open>0\<close> the slice
  \<^verbatim>\<open>prices.slice(prices.length)\<close> is empty and the quotient is \<^verbatim>\<open>0 / 0\<close>.
\<close>

definition calculateSMA :: "real list \<Rightarrow> nat \<Rightarrow> jsvalue" where
  "calculateSMA prices period =
     (if length prices < period then Null
      else let sum = reduce_add (drop (length prices - period) prices)
           in if period = 0 then NaN else Num (sum / real period))"

text \<open>The loop \<^verbatim>\<open>for (let i = 1; i < prices.length; i++) ema = prices[i] * k + ema * (1 - k)\<close>,
  entered at index \<open>i\<close> with the running value \<open>ema\<close>.\<close>

function ema_loop :: "real list \<Rightarrow> real \<Rightarrow> nat \<Rightarrow> real \<Rightarrow> real" where
  "ema_loop prices k i ema =
     (if i < length prices then ema_loop prices k (i + 1) (prices ! i * k + ema * (1 - k))
      else ema)"
  by pat_completeness auto
termination
  by (relation "measure (\<lambda>(prices, k, i, ema). length prices - i)") auto

declare ema_loop.simps [simp del]

text \<open>With an empty series and period \<open>0\<close> the seed \<^verbatim>\<open>prices[0]\<close> is \<^verbatim>\<open>undefined\<close>, the loop does
  not run and \<^verbatim>\<open>undefined\<close> is returned.\<close>

definition calculateEMA :: "real list \<Rightarrow> nat \<Rightarrow> jsvalue" where
  "calculateEMA prices period =
     (if length prices < period then Null
      else let k = 2 / (real period + 1)
           in (case prices of
                 [] \<Rightarrow> Undefined
               | p0 # _ \<Rightarrow> Num (ema_loop prices k 1 p0)))"

record MACD =
  macd :: jsvalue
  macd_signal :: jsvalue
  histogram :: jsvalue

text \<open>The second null test of the source is kept. An operand that is neither a number nor
  \<^verbatim>\<open>null\<close> makes the difference \<^verbatim>\<open>NaN\<close>, and then the signal and the histogram too.\<close>

definition calculateMACD :: "real list \<Rightarrow> MACD" where
  "calculateMACD prices =
     (if length prices < 26 then \<lparr>macd = Null, macd_signal = Null, histogram = Null\<rparr>
      else let ema12 = calculateEMA prices 12;
               ema26 = calculateEMA prices 26
           in if ema12 = Null \<or> ema26 = Null
              then \<lparr>macd = Null, macd_signal = Null, histogram = Null\<rparr>
              else (case js_sub ema12 ema26 of
                      Num m \<Rightarrow>
                        (let sig = calculateEMA (replicate 8 0 @ [m]) 9;
                             hist = js_sub (Num m) (or0 sig)
                         in \<lparr>macd = Num m, macd_signal = sig, histogram = hist\<rparr>)
                    | _ \<Rightarrow> \<lparr>macd = NaN, macd_signal = NaN, histogram = NaN\<rparr>))"

subsection \<open>The momentum oscillator on doubles with overflow\<close>

text \<open>
  The arithmetic of \<open>calculateRSI\<close> is modelled on finite numbers and the two infinities and
  \<^verbatim>\<open>NaN\<close> of IEEE doubles. The result of an operation on finite operands is computed exactly
  and is infinite when its magnitude reaches \<open>2 ^ 1024 - 2 ^ 970\<close>, the point from which
  rounding to nearest yields \<^verbatim>\<open>Infinity\<close>; below it rounding is abstracted. Zero is unsigned:
  the only zero divisor that occurs is the period \<^verbatim>\<open>+0\<close>.
\<close>

datatype double = Fin real | PInf | NInf | DNaN

definition overflow_bound :: real where
  "overflow_bound = 2 ^ 1024 - 2 ^ 970"

definition fin :: "real \<Rightarrow> double" where
  "fin x = (if overflow_bound \<le> x then PInf
            else if x \<le> - overflow_bound then NInf
            else Fin x)"

text \<open>\<^verbatim>\<open>a + b\<close>: \<^verbatim>\<open>NaN\<close> propagates and \<^verbatim>\<open>Infinity + -Infinity\<close> is \<^verbatim>\<open>NaN\<close>.\<close>

fun d_add :: "double \<Rightarrow> double \<Rightarrow> double" where
  "d_add (Fin x) (Fin y) = fin (x + y)"
| "d_add DNaN _ = DNaN"
| "d_add _ DNaN = DNaN"
| "d_add PInf NInf = DNaN"
| "d_add NInf PInf = DNaN"
| "d_add PInf _ = PInf"
| "d_add _ PInf = PInf"
| "d_add NInf _ = NInf"
| "d_add _ NInf = NInf"

fun d_neg :: "double \<Rightarrow> double" where
  "d_neg (Fin x) = Fin (- x)"
| "d_neg PInf = NInf"
| "d_neg NInf = PInf"
| "d_neg DNaN = DNaN"

definition d_sub :: "double \<Rightarrow> double \<Rightarrow> double" where
  "d_sub a b = d_add a (d_neg b)"

text \<open>\<^verbatim>\<open>a / b\<close>: \<^verbatim>\<open>0 / 0\<close> and \<^verbatim>\<open>Infinity / Infinity\<close> are \<^verbatim>\<open>NaN\<close>, a non-zero number
  over \<^verbatim>\<open>0\<close> is infinite, a finite number over an infinity is \<^verbatim>\<open>0\<close>.\<close>

fun d_div :: "double \<Rightarrow> double \<Rightarrow> double" where
  "d_div (Fin x) (Fin y) =
     (if y = 0 then (if x = 0 then DNaN else if 0 < x then PInf else NInf)
      else fin (x / y))"
| "d_div DNaN _ = DNaN"
| "d_div _ DNaN = DNaN"
| "d_div (Fin x) _ = Fin 0"
| "d_div PInf (Fin y) = (if y < 0 then NInf else PInf)"
| "d_div NInf (Fin y) = (if y < 0 then PInf else NInf)"
| "d_div _ _ = DNaN"

text \<open>\<^verbatim>\<open>Math.abs(a)\<close>, \<^verbatim>\<open>a > 0\<close> and \<^verbatim>\<open>a < 0\<close>.\<close>

fun d_abs :: "double \<Rightarrow> double" where
  "d_abs (Fin x) = Fin \<bar>x\<bar>"
| "d_abs PInf = PInf"
| "d_abs NInf = PInf"
| "d_abs DNaN = DNaN"

fun d_gt0 :: "double \<Rightarrow> bool" where
  "d_gt0 (Fin x) = (0 < x)"
| "d_gt0 PInf = True"
| "d_gt0 _ = False"

fun d_lt0 :: "double \<Rightarrow> bool" where
  "d_lt0 (Fin x) = (x < 0)"
| "d_lt0 NInf = True"
| "d_lt0 _ = False"

text \<open>\<^verbatim>\<open>xs.reduce((a, b) => a + b, 0)\<close> on doubles.\<close>

definition reduce_add_d :: "double list \<Rightarrow> double" where
  "reduce_add_d xs = foldl (\<lambda>a b. d_add a b) (Fin 0) xs"

text \<open>The array \<^verbatim>\<open>changes\<close>: \<^verbatim>\<open>prices[i] - prices[i - 1]\<close> for \<open>i\<close> from \<open>1\<close>; the
  difference of two finite closes can be infinite.\<close>

definition changes_of :: "real list \<Rightarrow> double list" where
  "changes_of prices =
     map (\<lambda>i. d_sub (Fin (prices ! i)) (Fin (prices ! (i - 1)))) [1..<length prices]"

definition gains_of :: "double list \<Rightarrow> double list" where
  "gains_of changes = map (\<lambda>change. if d_gt0 change then change else Fin 0) changes"

definition losses_of :: "double list \<Rightarrow> double list" where
  "losses_of changes = map (\<lambda>change. if d_lt0 change then d_abs change else Fin 0) changes"

text \<open>The constants \<^verbatim>\<open>avgGain\<close> and \<^verbatim>\<open>avgLoss\<close> of the source (lines 123 and 124).\<close>

definition avgGain :: "real list \<Rightarrow> nat \<Rightarrow> double" where
  "avgGain prices period =
     d_div (reduce_add_d (slice_last period (gains_of (changes_of prices)))) (Fin (real period))"

definition avgLoss :: "real list \<Rightarrow> nat \<Rightarrow> double" where
  "avgLoss prices period =
     d_div (reduce_add_d (slice_last period (losses_of (changes_of prices)))) (Fin (real period))"

text \<open>Lines 130 and 131: \<^verbatim>\<open>rs = avgGain / avgLoss\<close> and \<^verbatim>\<open>rsi = 100 - 100 / (1 + rs)\<close>.\<close>

definition rsi_of :: "double \<Rightarrow> double \<Rightarrow> double" where
  "rsi_of g l =
     (let rs = d_div g l
      in d_sub (Fin 100) (d_div (Fin 100) (d_add (Fin 1) rs)))"

text \<open>The returned value as a \<open>jsvalue\<close>. That type has no infinite value; the value that
  \<open>calculateRSI\<close> hands over is never infinite (lemma \<open>rsi_not_infinite\<close> below), so the last
  two cases are never used.\<close>

fun js_of_double :: "double \<Rightarrow> jsvalue" where
  "js_of_double (Fin x) = Num x"
| "js_of_double DNaN = NaN"
| "js_of_double PInf = NaN"
| "js_of_double NInf = NaN"

text \<open>With period \<open>0\<close> and a non-empty series both averages are quotients by \<^verbatim>\<open>0\<close>, that is
  \<^verbatim>\<open>NaN\<close> or \<^verbatim>\<open>Infinity\<close>, and the result is \<^verbatim>\<open>NaN\<close>.\<close>

definition calculateRSI :: "real list \<Rightarrow> nat \<Rightarrow> jsvalue" where
  "calculateRSI prices period =
     (if length prices \<le> period then Null
      else if avgLoss prices period = Fin 0 then Num 100
      else js_of_double (rsi_of (avgGain prices period) (avgLoss prices period)))"

section \<open>Trend classifier (technical-analysis.ts, performTechnicalAnalysis)\<close>

record SMAData =
  sma7 :: jsvalue
  sma25 :: jsvalue
  sma99 :: jsvalue
  aboveSMA7 :: bool
  aboveSMA25 :: bool
  aboveSMA99 :: bool

record ShortTermIndicators =
  sma5 :: jsvalue
  sma10 :: jsvalue
  ema9 :: jsvalue
  ema21 :: jsvalue
  aboveSMA5 :: bool
  aboveSMA10 :: bool
  aboveEMA9 :: bool
  aboveEMA21 :: bool
  macdSignal :: string
  shortTermTrend :: string

record TechnicalIndicators =
  sma :: SMAData
  rsi :: jsvalue
  rsiSignal :: string
  trend :: string
  shortTerm :: "ShortTermIndicators option"
  ta_recommendation :: "string option"

record TechnicalAnalysis =
  ta_symbol :: string
  currentPrice :: real
  technicalIndicators :: TechnicalIndicators
  ta_timestamp :: string

datatype error = NoPriceData | TypeError

text \<open>Lines 210 to 219.\<close>

definition trendOf :: "bool \<Rightarrow> bool \<Rightarrow> bool \<Rightarrow> string" where
  "trendOf a7 a25 a99 =
     (if a7 \<and> a25 \<and> a99 then ''strongly bullish''
      else if a7 \<and> a25 then ''bullish''
      else if \<not> a7 \<and> \<not> a25 \<and> \<not> a99 then ''strongly bearish''
      else if \<not> a7 \<and> \<not> a25 then ''bearish''
      else ''neutral'')"

text \<open>Lines 221 to 228.\<close>

definition rsiSignalOf :: "jsvalue \<Rightarrow> string" where
  "rsiSignalOf r =
     (if r \<noteq> Null then
        (if js_gt r (Num 70) then ''overbought''
         else if js_lt r (Num 30) then ''oversold''
         else ''neutral'')
      else ''neutral'')"

text \<open>Lines 266 to 274.\<close>

definition shortTermTrendOf :: "bool \<Rightarrow> bool \<Rightarrow> bool \<Rightarrow> bool \<Rightarrow> string" where
  "shortTermTrendOf s5 s10 e9 e21 =
     (if s5 \<and> s10 \<and> e9 \<and> e21 then ''strongly bullish''
      else if (s5 \<and> s10) \<or> (e9 \<and> e21) then ''bullish''
      else if \<not> s5 \<and> \<not> s10 \<and> \<not> e9 \<and> \<not> e21 then ''strongly bearish''
      else if (\<not> s5 \<and> \<not> s10) \<or> (\<not> e9 \<and> \<not> e21) then ''bearish''
      else ''neutral'')"

text \<open>Lines 276 to 293.\<close>

definition macdSignalOf :: "MACD \<Rightarrow> real \<Rightarrow> string" where
  "macdSignalOf m price =
     (if histogram m \<noteq> Null \<and> macd_signal m \<noteq> Null \<and> macd m \<noteq> Null then
        (if js_gt (histogram m) (Num 0) \<and> js_gt (histogram m) (Num (0.0001 * price)) then
           (if js_gt (macd m) (Num 0) then ''strongly bullish'' else ''bullish'')
         else if js_lt (histogram m) (Num 0)
                 \<and> js_gt (js_abs (histogram m)) (Num (0.0001 * price)) then
           (if js_lt (macd m) (Num 0) then ''strongly bearish'' else ''bearish'')
         else ''neutral'')
      else ''neutral'')"

text \<open>Lines 295 to 315.\<close>

definition recommendationOf :: "string \<Rightarrow> string \<Rightarrow> string \<Rightarrow> jsvalue \<Rightarrow> string" where
  "recommendationOf timeframe stTrend mSignal shortTermRSI =
     (if timeframe = ''1m'' then
        (if (str_includes stTrend ''bullish'' \<and> str_includes mSignal ''bullish'')
            \<or> (shortTermRSI \<noteq> Null \<and> js_lt shortTermRSI (Num 30)
                \<and> str_includes stTrend ''bullish'')
         then ''LONG''
         else if (str_includes stTrend ''bearish'' \<and> str_includes mSignal ''bearish'')
                 \<or> (shortTermRSI \<noteq> Null \<and> js_gt shortTermRSI (Num 70)
                     \<and> str_includes stTrend ''bearish'')
         then ''SHORT''
         else ''neutral'')
      else ''neutral'')"

text \<open>Lines 250 to 333: the indicators of the intraday timeframes.\<close>

definition shortTermOf :: "string \<Rightarrow> real list \<Rightarrow> real \<Rightarrow> ShortTermIndicators \<times> string" where
  "shortTermOf timeframe prices price =
     (let shortTermRSI = calculateRSI prices 7;
          s5 = calculateSMA prices 5;
          s10 = calculateSMA prices 10;
          e9 = calculateEMA prices 9;
          e21 = calculateEMA prices 21;
          m = calculateMACD prices;
          a5 = js_gt (Num price) (nullish0 s5);
          a10 = js_gt (Num price) (nullish0 s10);
          a9 = js_gt (Num price) (nullish0 e9);
          a21 = js_gt (Num price) (nullish0 e21);
          stTrend = shortTermTrendOf a5 a10 a9 a21;
          mSignal = macdSignalOf m price
      in (\<lparr>sma5 = s5, sma10 = s10, ema9 = e9, ema21 = e21,
           aboveSMA5 = a5, aboveSMA10 = a10, aboveEMA9 = a9, aboveEMA21 = a21,
           macdSignal = mSignal, shortTermTrend = stTrend\<rparr>,
          recommendationOf timeframe stTrend mSignal shortTermRSI))"

text \<open>
  The function from the point where the candles have been fetched: \<open>prices\<close> are the parsed
  closes, \<open>now\<close> stands for \<^verbatim>\<open>new Date().toISOString()\<close>. An empty answer is the error
  \<^verbatim>\<open>No price data available\<close>.
\<close>

definition performTechnicalAnalysis ::
  "string \<Rightarrow> string \<Rightarrow> string \<Rightarrow> real list \<Rightarrow> error + TechnicalAnalysis" where
  "performTechnicalAnalysis now sy timeframe prices =
     (if length prices = 0 then Inl NoPriceData
      else let price = prices ! (length prices - 1);
               s7 = calculateSMA prices 7;
               s25 = calculateSMA prices 25;
               s99 = calculateSMA prices (min 99 (length prices - 1));
               r = calculateRSI prices 14;
               a7 = js_gt (Num price) (nullish0 s7);
               a25 = js_gt (Num price) (nullish0 s25);
               a99 = js_gt (Num price) (nullish0 s99);
               st = (if timeframe \<in> set [''1m'', ''5m'', ''15m'', ''hourly'']
                     then Some (shortTermOf timeframe prices price) else None)
           in Inr \<lparr>ta_symbol = sy, currentPrice = price,
                   technicalIndicators =
                     \<lparr>sma = \<lparr>sma7 = s7, sma25 = s25, sma99 = s99,
                             aboveSMA7 = a7, aboveSMA25 = a25, aboveSMA99 = a99\<rparr>,
                      rsi = r, rsiSignal = rsiSignalOf r, trend = trendOf a7 a25 a99,
                      shortTerm = map_option fst st,
                      ta_recommendation = map_option snd st\<rparr>,
                   ta_timestamp = now\<rparr>)"

section \<open>Sentiment normalizer (market-sentiment.ts)\<close>

text \<open>The index is \<^verbatim>\<open>parseInt\<close> of the fetched value: an integer, or \<^verbatim>\<open>NaN\<close> (here \<open>None\<close>),
  for which every comparison fails.\<close>

definition fearGreedDescriptionOf :: "int option \<Rightarrow> string" where
  "fearGreedDescriptionOf idx =
     (case idx of
        None \<Rightarrow> ''Neutral''
      | Some i \<Rightarrow>
          (if i \<ge> 0 \<and> i \<le> 25 then ''Extreme Fear''
           else if i > 25 \<and> i \<le> 45 then ''Fear''
           else if i > 45 \<and> i \<le> 55 then ''Neutral''
           else if i > 55 \<and> i \<le> 75 then ''Greed''
           else if i > 75 \<and> i \<le> 100 then ''Extreme Greed''
           else ''Neutral''))"

definition marketSentimentOf :: "string \<Rightarrow> string" where
  "marketSentimentOf d =
     (if d = ''Extreme Fear'' then ''extremely bearish (potentially oversold)''
      else if d = ''Fear'' then ''bearish''
      else if d = ''Greed'' then ''bullish''
      else if d = ''Extreme Greed'' then ''extremely bullish (potentially overbought)''
      else ''neutral'')"

definition analyzeMarketSentiment :: "int option \<Rightarrow> string" where
  "analyzeMarketSentiment idx = marketSentimentOf (fearGreedDescriptionOf idx)"

section \<open>Decision fusion (trading-recommendation.ts)\<close>

record SMAInput =
  in_sma7 :: jsvalue
  in_sma25 :: jsvalue
  in_sma99 :: jsvalue
  in_aboveSMA7 :: bool
  in_aboveSMA25 :: bool
  in_aboveSMA99 :: bool

record TechnicalIndicatorsInput =
  in_sma :: SMAInput
  in_rsi :: jsvalue
  in_rsiSignal :: string
  in_trend :: string

text \<open>The two objects that the function destructures first are optional in the model:
  \<open>None\<close> is a payload in which the field is missing, which the source's \<^verbatim>\<open>try/catch\<close>
  turns into an error response.\<close>

record TechnicalDataInput =
  td_symbol :: string
  td_currentPrice :: real
  td_technicalIndicators :: "TechnicalIndicatorsInput option"

record FearGreedIndex =
  fg_value :: int
  fg_description :: string
  fg_classification :: string

record MarketSentimentData =
  globalFearGreedIndex :: FearGreedIndex
  msd_interpretation :: string
  ms_timestamp :: string
  timeUpdated :: string

record SentimentDataInput =
  sd_symbol :: string
  sd_marketSentimentData :: "MarketSentimentData option"

record Recommendation =
  signal :: string
  confidenceLevel :: string
  recommendedTimeframe :: string
  technicalAnalysisSignal :: string
  marketSentimentSignal :: string
  timestamp :: string

record SentimentSupportData =
  marketSentiment :: string
  fearGreedIndex :: int
  fearGreedDescription :: string

record SupportingData =
  technical :: TechnicalIndicatorsInput
  sentiment :: SentimentSupportData

record TradingRecommendation =
  symbol :: string
  recommendation :: Recommendation
  supportingData :: SupportingData

text \<open>Lines 99 to 104: the direction read off the trend label.\<close>

definition trendSignal :: "string \<Rightarrow> string" where
  "trendSignal t =
     (if t = ''strongly bullish'' \<or> t = ''bullish'' then ''LONG''
      else if t = ''strongly bearish'' \<or> t = ''bearish'' then ''SHORT''
      else ''LONG'')"

text \<open>Lines 106 to 110: the overbought/oversold override of that direction.\<close>

definition rsiOverride :: "string \<Rightarrow> string \<Rightarrow> string" where
  "rsiOverride r tech =
     (if r = ''overbought'' \<and> tech = ''LONG'' then ''SHORT''
      else if r = ''oversold'' \<and> tech = ''SHORT'' then ''LONG''
      else tech)"

definition technicalSignal :: "string \<Rightarrow> string \<Rightarrow> string" where
  "technicalSignal t r = rsiOverride r (trendSignal t)"

text \<open>Lines 112 to 123.\<close>

definition sentimentSignal :: "string \<Rightarrow> string" where
  "sentimentSignal ms =
     (if str_includes ms ''bullish'' then
        (if str_includes ms ''extremely'' \<and> str_includes ms ''overbought''
         then ''SHORT'' else ''LONG'')
      else if str_includes ms ''bearish'' then
        (if str_includes ms ''extremely'' \<and> str_includes ms ''oversold''
         then ''LONG'' else ''SHORT'')
      else ''LONG'')"

text \<open>Lines 125 to 132: both branches assign the technical signal.\<close>

definition finalSignal :: "string \<Rightarrow> string \<Rightarrow> string" where
  "finalSignal tech sent = (if tech = sent then tech else tech)"

text \<open>Lines 134 to 139.\<close>

definition timeframeOf :: "string \<Rightarrow> string \<Rightarrow> string" where
  "timeframeOf final t =
     (if final = ''LONG'' \<and> t = ''strongly bullish'' then ''long-term''
      else if final = ''SHORT'' \<and> t = ''strongly bearish'' then ''short-term''
      else ''medium-term'')"

text \<open>Lines 141 to 146.\<close>

definition confidenceOf :: "string \<Rightarrow> string \<Rightarrow> string \<Rightarrow> string \<Rightarrow> string" where
  "confidenceOf tech sent t ms =
     (if tech = sent \<and> (str_includes t ''strongly'' \<or> str_includes ms ''extremely'')
      then ''high''
      else if tech \<noteq> sent then ''low''
      else ''medium'')"

text \<open>The function itself; \<open>now\<close> stands for \<^verbatim>\<open>new Date().toISOString()\<close>.\<close>

definition generateTradingRecommendation ::
  "string \<Rightarrow> TechnicalDataInput \<Rightarrow> SentimentDataInput \<Rightarrow> error + TradingRecommendation" where
  "generateTradingRecommendation now technicalData sentimentData =
     (case td_technicalIndicators technicalData of
        None \<Rightarrow> Inl TypeError
      | Some ti \<Rightarrow>
        (case sd_marketSentimentData sentimentData of
           None \<Rightarrow> Inl TypeError
         | Some msd \<Rightarrow>
           (let t = in_trend ti;
                r = in_rsiSignal ti;
                ms = msd_interpretation msd;
                tech = technicalSignal t r;
                sent = sentimentSignal ms;
                final = finalSignal tech sent;
                tf = timeframeOf final t;
                conf = confidenceOf tech sent t ms
            in Inr \<lparr>symbol = td_symbol technicalData,
                    recommendation =
                      \<lparr>signal = final, confidenceLevel = conf, recommendedTimeframe = tf,
                       technicalAnalysisSignal = tech, marketSentimentSignal = sent,
                       timestamp = now\<rparr>,
                    supportingData =
                      \<lparr>technical = ti,
                       sentiment =
                         \<lparr>marketSentiment = msd_interpretation msd,
                          fearGreedIndex = fg_value (globalFearGreedIndex msd),
                          fearGreedDescription = fg_description (globalFearGreedIndex msd)\<rparr>\<rparr>\<rparr>)))"

section \<open>Reference notions\<close>

text \<open>The recurrence of the exponential moving average as the specification words it:
  \<open>ema[0]\<close> is the first price and \<open>ema[i] = price[i] * k + ema[i - 1] * (1 - k)\<close>.\<close>

fun ema_rec :: "real \<Rightarrow> real list \<Rightarrow> nat \<Rightarrow> real" where
  "ema_rec k price 0 = price ! 0"
| "ema_rec k price (Suc i) = price ! (Suc i) * k + ema_rec k price i * (1 - k)"

text \<open>The arithmetic mean of a list and the last \<open>n\<close> entries of a series.\<close>

definition mean :: "real list \<Rightarrow> real" where
  "mean xs = sum_list xs / real (length xs)"

definition lastN :: "nat \<Rightarrow> 'a list \<Rightarrow> 'a list" where
  "lastN n xs = rev (take n (rev xs))"

text \<open>A double that is a non-negative number or \<^verbatim>\<open>Infinity\<close>.\<close>

fun nonneg_d :: "double \<Rightarrow> bool" where
  "nonneg_d (Fin x) = (0 \<le> x)"
| "nonneg_d PInf = True"
| "nonneg_d _ = False"

text \<open>The five sentiment labels in five payloads, and the payload of the scenario
  \<^emph>\<open>strongly bullish, overbought, extremely bullish\<close>.\<close>

definition sentimentOf :: "string \<Rightarrow> SentimentDataInput" where
  "sentimentOf label =
     \<lparr>sd_symbol = ''bitcoin'',
      sd_marketSentimentData =
        Some \<lparr>globalFearGreedIndex =
                \<lparr>fg_value = 50, fg_description = ''Neutral'', fg_classification = ''Neutral''\<rparr>,
              msd_interpretation = label,
              ms_timestamp = ''1700000000'', timeUpdated = ''3600''\<rparr>\<rparr>"

definition technicalOf :: "string \<Rightarrow> string \<Rightarrow> TechnicalDataInput" where
  "technicalOf t r =
     \<lparr>td_symbol = ''BTC'', td_currentPrice = 10,
      td_technicalIndicators =
        Some \<lparr>in_sma = \<lparr>in_sma7 = Num 10, in_sma25 = Null, in_sma99 = Num 10,
                        in_aboveSMA7 = False, in_aboveSMA25 = True, in_aboveSMA99 = False\<rparr>,
              in_rsi = Num 100, in_rsiSignal = r, in_trend = t\<rparr>\<rparr>"

section \<open>Properties\<close>

lemma foldl_add_sum_list: "foldl (\<lambda>a b. a + b) (a::real) xs = a + sum_list xs"
  by (induction xs arbitrary: a) simp_all

lemma reduce_add_sum_list: "reduce_add xs = sum_list xs"
  by (simp add: reduce_add_def foldl_add_sum_list)

lemma lastN_drop: "lastN n xs = drop (length xs - n) xs"
  by (simp add: lastN_def take_rev)

lemma calculateSMA_mean:
  assumes "0 < period" "period \<le> length prices"
  shows "calculateSMA prices period = Num (mean (lastN period prices))"
  using assms by (simp add: calculateSMA_def Let_def reduce_add_sum_list mean_def lastN_drop)

lemma ema_loop_rec:
  "0 < i \<Longrightarrow> i \<le> length prices \<Longrightarrow>
   ema_loop prices k i (ema_rec k prices (i - 1)) = ema_rec k prices (length prices - 1)"
proof (induction prices k i "ema_rec k prices (i - 1)" rule: ema_loop.induct)
  case (1 prices k i)
  show ?case
  proof (cases "i < length prices")
    case True
    from "1.prems" obtain j where j: "i = Suc j" by (cases i) auto
    have step: "prices ! i * k + ema_rec k prices (i - 1) * (1 - k) = ema_rec k prices (i + 1 - 1)"
      by (simp add: j)
    have "ema_loop prices k (i + 1) (ema_rec k prices (i + 1 - 1)) = ema_rec k prices (length prices - 1)"
      using "1.hyps"[OF True step] True by simp
    then show ?thesis
      using True step by (subst ema_loop.simps) simp
  next
    case False
    with "1.prems" have "i = length prices" by simp
    then show ?thesis by (subst ema_loop.simps) simp
  qed
qed

lemma calculateEMA_rec:
  assumes "prices \<noteq> []" "period \<le> length prices"
  shows "calculateEMA prices period = Num (ema_rec (2 / (real period + 1)) prices (length prices - 1))"
proof -
  obtain p0 ps where p: "prices = p0 # ps" using assms(1) by (cases prices) auto
  have "ema_loop prices k 1 (ema_rec k prices (1 - 1)) = ema_rec k prices (length prices - 1)" for k
    by (rule ema_loop_rec) (use p in auto)
  then have "ema_loop prices k 1 p0 = ema_rec k prices (length prices - 1)" for k
    by (simp add: p)
  then show ?thesis using assms(2) by (simp add: calculateEMA_def p Let_def)
qed

lemma overflow_bound_pos: "2 ^ 1023 < overflow_bound"
proof -
  have "(2::real) ^ 970 < 2 ^ 1023" by (rule power_strict_increasing) simp_all
  moreover have "(2::real) ^ 1024 = 2 * 2 ^ 1023" by simp
  ultimately show ?thesis unfolding overflow_bound_def by linarith
qed

lemma overflow_bound_le: "overflow_bound \<le> 2 ^ 1024"
  unfolding overflow_bound_def by simp

lemma small_lt_bound: "x \<le> 2 ^ 1000 \<Longrightarrow> x < overflow_bound"
proof -
  assume "x \<le> 2 ^ 1000"
  moreover have "(2::real) ^ 1000 < 2 ^ 1023" by (rule power_strict_increasing) simp_all
  ultimately show ?thesis using overflow_bound_pos by linarith
qed

lemma hundred_lt_bound: "100 < overflow_bound"
proof -
  have "(2::real) ^ 7 \<le> 2 ^ 1000" by (rule power_increasing) simp_all
  then have "(100::real) \<le> 2 ^ 1000" by simp
  then show ?thesis by (rule small_lt_bound)
qed

lemma overflow_bound_gt0: "0 < overflow_bound"
  using hundred_lt_bound by linarith

lemma fin_small: "\<bar>x\<bar> \<le> 1000 \<Longrightarrow> fin x = Fin x"
proof -
  assume a: "\<bar>x\<bar> \<le> 1000"
  have "(2::real) ^ 10 \<le> 2 ^ 1000" by (rule power_increasing) simp_all
  then have "(1000::real) \<le> 2 ^ 1000" by simp
  then have "(1000::real) < overflow_bound" by (rule small_lt_bound)
  with a have "\<not> overflow_bound \<le> x" "\<not> x \<le> - overflow_bound" by linarith+
  then show ?thesis by (simp add: fin_def)
qed

lemma fin_in_range: "- overflow_bound < x \<Longrightarrow> x < overflow_bound \<Longrightarrow> fin x = Fin x"
  by (simp add: fin_def)

lemma fin_nonneg: "0 \<le> x \<Longrightarrow> fin x = PInf \<or> fin x = Fin x"
  using overflow_bound_gt0 by (simp add: fin_def)

lemma nonneg_fin: "0 \<le> x \<Longrightarrow> nonneg_d (fin x)"
  using fin_nonneg [of x] by auto

lemma nonneg_d_cases:
  assumes "nonneg_d d"
  obtains x where "d = Fin x" "0 \<le> x" | "d = PInf"
  using assms by (cases d) auto

lemma d_add_nonneg: "nonneg_d a \<Longrightarrow> nonneg_d b \<Longrightarrow> nonneg_d (d_add a b)"
  by (cases a; cases b) (simp_all add: nonneg_fin)

lemma foldl_d_add_nonneg:
  "nonneg_d a \<Longrightarrow> (\<And>d. d \<in> set xs \<Longrightarrow> nonneg_d d) \<Longrightarrow> nonneg_d (foldl (\<lambda>a b. d_add a b) a xs)"
  by (induction xs arbitrary: a) (simp_all add: d_add_nonneg)

lemma set_slice_last: "d \<in> set (slice_last n xs) \<Longrightarrow> d \<in> set xs"
  by (auto simp: slice_last_def dest: in_set_dropD split: if_splits)

lemma gains_nonneg: "d \<in> set (gains_of cs) \<Longrightarrow> nonneg_d d"
proof -
  assume "d \<in> set (gains_of cs)"
  then have "d \<in> (\<lambda>change. if d_gt0 change then change else Fin 0) ` set cs"
    by (simp add: gains_of_def)
  then obtain c where "d = (if d_gt0 c then c else Fin 0)"
    by (rule imageE)
  then show ?thesis by (cases c) (auto split: if_splits)
qed

lemma losses_nonneg: "d \<in> set (losses_of cs) \<Longrightarrow> nonneg_d d"
proof -
  assume "d \<in> set (losses_of cs)"
  then have "d \<in> (\<lambda>change. if d_lt0 change then d_abs change else Fin 0) ` set cs"
    by (simp add: losses_of_def)
  then obtain c where "d = (if d_lt0 c then d_abs c else Fin 0)"
    by (rule imageE)
  then show ?thesis by (cases c) (auto split: if_splits)
qed

lemma reduce_gains_nonneg: "nonneg_d (reduce_add_d (slice_last n (gains_of cs)))"
  unfolding reduce_add_d_def
  by (rule foldl_d_add_nonneg) (auto dest: set_slice_last gains_nonneg)

lemma reduce_losses_nonneg: "nonneg_d (reduce_add_d (slice_last n (losses_of cs)))"
  unfolding reduce_add_d_def
  by (rule foldl_d_add_nonneg) (auto dest: set_slice_last losses_nonneg)

lemma d_div_nonneg_pos: "nonneg_d a \<Longrightarrow> 0 < p \<Longrightarrow> nonneg_d (d_div a (Fin p))"
  by (cases a) (simp_all add: nonneg_fin)

lemma d_div_by_zero: "nonneg_d a \<Longrightarrow> d_div a (Fin 0) = DNaN \<or> d_div a (Fin 0) = PInf"
  by (cases a) auto

lemma avgGain_nonneg: "0 < period \<Longrightarrow> nonneg_d (avgGain prices period)"
  unfolding avgGain_def by (rule d_div_nonneg_pos [OF reduce_gains_nonneg]) simp

lemma avgLoss_nonneg: "0 < period \<Longrightarrow> nonneg_d (avgLoss prices period)"
  unfolding avgLoss_def by (rule d_div_nonneg_pos [OF reduce_losses_nonneg]) simp

lemma d_div_nonneg:
  assumes "nonneg_d g" "nonneg_d l" "l \<noteq> Fin 0" "\<not> (g = PInf \<and> l = PInf)"
  shows "nonneg_d (d_div g l)"
  using assms by (cases g; cases l) (simp_all add: nonneg_fin)

lemma rsi_tail:
  assumes "nonneg_d rs"
  shows "\<exists>v. d_sub (Fin 100) (d_div (Fin 100) (d_add (Fin 1) rs)) = Fin v \<and> 0 \<le> v \<and> v \<le> 100"
proof -
  have inf: "d_sub (Fin 100) (d_div (Fin 100) PInf) = Fin 100"
    by (simp add: d_sub_def fin_small)
  from assms show ?thesis
  proof (cases rule: nonneg_d_cases)
    case 2
    then show ?thesis using inf by simp
  next
    case (1 r)
    from fin_nonneg [of "1 + r"] 1 have "fin (1 + r) = PInf \<or> fin (1 + r) = Fin (1 + r)" by simp
    then show ?thesis
    proof
      assume "fin (1 + r) = PInf"
      then show ?thesis using 1 inf by simp
    next
      assume f: "fin (1 + r) = Fin (1 + r)"
      have q: "0 \<le> 100 / (1 + r)" "100 / (1 + r) \<le> 100"
      proof -
        show "0 \<le> 100 / (1 + r)" using 1 by simp
        have "100 / (1 + r) \<le> 100 / 1" using 1 by (intro divide_left_mono) auto
        then show "100 / (1 + r) \<le> 100" by simp
      qed
      have "\<bar>100 / (1 + r)\<bar> \<le> 1000" using q by linarith
      then have f2: "fin (100 / (1 + r)) = Fin (100 / (1 + r))"
        by (rule fin_small)
      have "\<bar>100 - 100 / (1 + r)\<bar> \<le> 1000" using q by linarith
      then have f3: "fin (100 - 100 / (1 + r)) = Fin (100 - 100 / (1 + r))"
        by (rule fin_small)
      have "1 + r \<noteq> 0" using 1 by simp
      then have "d_sub (Fin 100) (d_div (Fin 100) (d_add (Fin 1) rs)) = Fin (100 - 100 / (1 + r))"
        using 1 f f2 f3 by (simp add: d_sub_def)
      with q show ?thesis by simp
    qed
  qed
qed

lemma rsi_of_range:
  assumes "nonneg_d g" "nonneg_d l" "l \<noteq> Fin 0" "\<not> (g = PInf \<and> l = PInf)"
  shows "\<exists>v. rsi_of g l = Fin v \<and> 0 \<le> v \<and> v \<le> 100"
  unfolding rsi_of_def Let_def by (rule rsi_tail) (rule d_div_nonneg [OF assms])

lemma rsi_of_nan: "rsi_of PInf PInf = DNaN"
  by (simp add: rsi_of_def d_sub_def)

lemma rsi_not_infinite:
  assumes "avgLoss prices period \<noteq> Fin 0"
  shows "rsi_of (avgGain prices period) (avgLoss prices period) \<noteq> PInf
       \<and> rsi_of (avgGain prices period) (avgLoss prices period) \<noteq> NInf"
proof (cases "0 < period")
  case True
  then have g: "nonneg_d (avgGain prices period)" and l: "nonneg_d (avgLoss prices period)"
    by (rule avgGain_nonneg, rule avgLoss_nonneg)
  show ?thesis
  proof (cases "avgGain prices period = PInf \<and> avgLoss prices period = PInf")
    case True
    then show ?thesis by (simp add: rsi_of_nan)
  next
    case False
    from rsi_of_range [OF g l assms False] show ?thesis by auto
  qed
next
  case False
  then have p: "period = 0" by simp
  have g: "avgGain prices period = DNaN \<or> avgGain prices period = PInf"
    unfolding avgGain_def p using d_div_by_zero [OF reduce_gains_nonneg] by simp
  have l: "avgLoss prices period = DNaN \<or> avgLoss prices period = PInf"
    unfolding avgLoss_def p using d_div_by_zero [OF reduce_losses_nonneg] by simp
  from g l show ?thesis by (auto simp: rsi_of_def d_sub_def)
qed

lemma foldl_zeros: "(\<And>d. d \<in> set xs \<Longrightarrow> d = Fin 0) \<Longrightarrow> foldl (\<lambda>a b. d_add a b) (Fin 0) xs = Fin 0"
proof (induction xs)
  case Nil
  then show ?case by simp
next
  case (Cons d ds)
  then have "d = Fin 0" by simp
  moreover have "foldl (\<lambda>a b. d_add a b) (Fin 0) ds = Fin 0"
    by (rule Cons.IH) (simp add: Cons.prems)
  ultimately show ?case by (simp add: fin_small)
qed

lemma losses_window_zero:
  assumes "0 < period" "period < length prices"
    and mono: "\<forall>i. length prices - period \<le> i \<and> i < length prices \<longrightarrow> prices ! (i - 1) \<le> prices ! i"
  shows "avgLoss prices period = Fin 0"
proof -
  have "x = Fin 0" if "x \<in> set (slice_last period (losses_of (changes_of prices)))" for x
  proof -
    from that assms(1) have "x \<in> set (drop (length prices - 1 - period) (losses_of (changes_of prices)))"
      by (simp add: slice_last_def losses_of_def changes_of_def)
    then obtain j where j: "j < length (drop (length prices - 1 - period) (losses_of (changes_of prices)))"
      and x: "x = drop (length prices - 1 - period) (losses_of (changes_of prices)) ! j"
      by (auto simp: in_set_conv_nth)
    let ?i = "length prices - 1 - period + j + 1"
    have jl: "j < period" using j assms by (simp add: losses_of_def changes_of_def)
    have il: "?i < length prices" "length prices - period \<le> ?i" using jl assms by auto
    define c where "c = d_sub (Fin (prices ! ?i)) (Fin (prices ! (?i - 1)))"
    have xc: "x = (if d_lt0 c then d_abs c else Fin 0)"
      using x j il by (simp add: losses_of_def changes_of_def c_def add.commute add.left_commute)
    have "prices ! (?i - 1) \<le> prices ! ?i" using mono il by blast
    then have "0 \<le> prices ! ?i - prices ! (?i - 1)" by simp
    from fin_nonneg [OF this] have "\<not> d_lt0 c"
      unfolding c_def d_sub_def using \<open>0 \<le> prices ! ?i - prices ! (?i - 1)\<close> by auto
    with xc show ?thesis by simp
  qed
  then have "reduce_add_d (slice_last period (losses_of (changes_of prices))) = Fin 0"
    unfolding reduce_add_d_def by (rule foldl_zeros)
  then show ?thesis using assms(1) by (simp add: avgLoss_def fin_small)
qed

lemma foldl_fin_bounded:
  assumes "\<And>d. d \<in> set xs \<Longrightarrow> \<exists>x. d = Fin x \<and> 0 \<le> x \<and> x \<le> M"
    and "0 \<le> a" "0 \<le> M" "a + real (length xs) * M < overflow_bound"
  shows "\<exists>s. foldl (\<lambda>a b. d_add a b) (Fin a) xs = Fin s \<and> 0 \<le> s \<and> s \<le> a + real (length xs) * M"
  using assms
proof (induction xs arbitrary: a)
  case Nil
  then show ?case by simp
next
  case (Cons d ds)
  from Cons.prems(1) [of d] obtain x where d: "d = Fin x" and x: "0 \<le> x" "x \<le> M" by auto
  have len: "a + x + real (length ds) * M \<le> a + real (length (d # ds)) * M"
    using x by (simp add: algebra_simps)
  have "0 \<le> real (length ds) * M" using Cons.prems(3) by simp
  with len Cons.prems(4) have "a + x < overflow_bound" by linarith
  moreover have "- overflow_bound < a + x" using x Cons.prems(2) overflow_bound_gt0 by linarith
  ultimately have f: "fin (a + x) = Fin (a + x)" by (intro fin_in_range)
  have "\<exists>s. foldl (\<lambda>a b. d_add a b) (Fin (a + x)) ds = Fin s \<and> 0 \<le> s
          \<and> s \<le> a + x + real (length ds) * M"
  proof (rule Cons.IH)
    show "\<exists>y. e = Fin y \<and> 0 \<le> y \<and> y \<le> M" if "e \<in> set ds" for e
      using Cons.prems(1) [of e] that by simp
    show "0 \<le> a + x" using x Cons.prems(2) by simp
    show "0 \<le> M" by (rule Cons.prems(3))
    show "a + x + real (length ds) * M < overflow_bound" using len Cons.prems(4) by linarith
  qed
  then obtain s where "foldl (\<lambda>a b. d_add a b) (Fin (a + x)) ds = Fin s" "0 \<le> s"
    "s \<le> a + x + real (length ds) * M" by blast
  with len show ?case by (auto simp: d f)
qed

lemma changes_bounded:
  assumes "\<forall>p\<in>set prices. \<bar>p\<bar> \<le> 2 ^ 1000" "c \<in> set (changes_of prices)"
  shows "\<exists>x. c = Fin x \<and> \<bar>x\<bar> \<le> 2 ^ 1001"
proof -
  from assms(2) obtain i where i: "1 \<le> i" "i < length prices"
    and c: "c = d_sub (Fin (prices ! i)) (Fin (prices ! (i - 1)))"
    by (auto simp: changes_of_def)
  have "\<bar>prices ! i\<bar> \<le> 2 ^ 1000" "\<bar>prices ! (i - 1)\<bar> \<le> 2 ^ 1000"
    using assms(1) i by (auto intro!: nth_mem)
  then have b: "\<bar>prices ! i - prices ! (i - 1)\<bar> \<le> 2 ^ 1001" by simp
  have "(2::real) ^ 1001 < 2 ^ 1023" by (rule power_strict_increasing) simp_all
  with b overflow_bound_pos have "- overflow_bound < prices ! i - prices ! (i - 1)"
    "prices ! i - prices ! (i - 1) < overflow_bound" by linarith+
  then have "fin (prices ! i - prices ! (i - 1)) = Fin (prices ! i - prices ! (i - 1))"
    by (rule fin_in_range)
  with c b show ?thesis by (simp add: d_sub_def)
qed

lemma avgGain_finite:
  assumes "\<forall>p\<in>set prices. \<bar>p\<bar> \<le> 2 ^ 1000" "0 < period" "period \<le> 2 ^ 20"
  shows "avgGain prices period \<noteq> PInf"
proof -
  let ?xs = "slice_last period (gains_of (changes_of prices))"
  have el: "\<exists>x. d = Fin x \<and> 0 \<le> x \<and> x \<le> 2 ^ 1001" if "d \<in> set ?xs" for d
  proof -
    from that have "d \<in> set (gains_of (changes_of prices))" by (rule set_slice_last)
    then have "d \<in> (\<lambda>change. if d_gt0 change then change else Fin 0) ` set (changes_of prices)"
      by (simp add: gains_of_def)
    then obtain c where cin: "c \<in> set (changes_of prices)"
      and dc: "d = (if d_gt0 c then c else Fin 0)" by (rule imageE)
    from changes_bounded [OF assms(1) cin] obtain x where "c = Fin x" "\<bar>x\<bar> \<le> 2 ^ 1001" by blast
    with dc show ?thesis by auto
  qed
  have len: "length ?xs \<le> period" using assms(2) by (simp add: slice_last_def)
  have "real (length ?xs) * 2 ^ 1001 \<le> 2 ^ 20 * 2 ^ 1001"
    using len assms(3) by (intro mult_right_mono) (simp_all add: le_trans [OF len] of_nat_le_iff [symmetric] del: of_nat_le_iff)
  also have "(2::real) ^ 20 * 2 ^ 1001 = 2 ^ 1021" by (simp add: power_add [symmetric])
  also have "(2::real) ^ 1021 < 2 ^ 1023" by (rule power_strict_increasing) simp_all
  finally have "0 + real (length ?xs) * 2 ^ 1001 < overflow_bound"
    using overflow_bound_pos by linarith
  from foldl_fin_bounded [OF el _ _ this]
  obtain s where s: "reduce_add_d ?xs = Fin s" "0 \<le> s" "s \<le> 0 + real (length ?xs) * 2 ^ 1001"
    unfolding reduce_add_d_def by auto
  have "0 \<le> s / real period" using s assms(2) by simp
  moreover have "s / real period \<le> s" using s assms(2)
    by (simp add: divide_le_eq mult_le_cancel_left1)
  ultimately have "- overflow_bound < s / real period" "s / real period < overflow_bound"
    using s(3) \<open>0 + real (length ?xs) * 2 ^ 1001 < overflow_bound\<close> overflow_bound_gt0 by linarith+
  then have "fin (s / real period) = Fin (s / real period)" by (rule fin_in_range)
  then show ?thesis using s assms(2) by (simp add: avgGain_def)
qed

lemma calculateRSI_overflow:
  assumes "0 < h" "h < overflow_bound" "overflow_bound \<le> 2 * h"
  shows "calculateRSI [0, h, - h, h] 3 = NaN"
proof -
  have "\<not> overflow_bound \<le> - (2 * h)" using assms overflow_bound_gt0 by linarith
  then have f: "fin h = Fin h" "fin (- (2 * h)) = NInf" "fin (2 * h) = PInf" "fin 0 = Fin 0"
    using assms overflow_bound_gt0 by (simp_all add: fin_def)
  have c: "changes_of [0, h, - h, h] = [Fin h, NInf, PInf]"
    by (simp add: changes_of_def d_sub_def f eval_nat_numeral)
  have g: "avgGain [0, h, - h, h] 3 = PInf"
    using assms(1) by (simp add: avgGain_def c gains_of_def slice_last_def reduce_add_d_def f)
  have l: "avgLoss [0, h, - h, h] 3 = PInf"
    using assms(1) by (simp add: avgLoss_def c losses_of_def slice_last_def reduce_add_d_def f)
  show ?thesis by (simp add: calculateRSI_def g l rsi_of_nan)
qed

lemma signal_seed:
  "calculateEMA (replicate 8 0 @ [m]) 9 = Num (m / 5)"
proof -
  have "calculateEMA (replicate 8 0 @ [m]) 9
        = Num (ema_rec (2 / (real 9 + 1)) (replicate 8 0 @ [m]) (length (replicate 8 0 @ [m]) - 1))"
    by (rule calculateEMA_rec) simp_all
  also have "ema_rec (2 / (real 9 + 1)) (replicate 8 0 @ [m]) (length (replicate 8 0 @ [m]) - 1) = m / 5"
    by (simp add: eval_nat_numeral)
  finally show ?thesis .
qed

lemma calculateMACD_short: "length prices < 26 \<Longrightarrow>
   calculateMACD prices = \<lparr>macd = Null, macd_signal = Null, histogram = Null\<rparr>"
  by (simp add: calculateMACD_def)

lemma calculateMACD_long:
  assumes "26 \<le> length prices"
  shows "calculateMACD prices =
     (let m = ema_rec (2 / 13) prices (length prices - 1) - ema_rec (2 / 27) prices (length prices - 1)
      in \<lparr>macd = Num m, macd_signal = Num (m / 5), histogram = Num (m - m / 5)\<rparr>)"
proof -
  from assms have ne: "prices \<noteq> []" by auto
  have e12: "calculateEMA prices 12 = Num (ema_rec (2 / 13) prices (length prices - 1))"
    using calculateEMA_rec[OF ne, of 12] assms by simp
  have e26: "calculateEMA prices 26 = Num (ema_rec (2 / 27) prices (length prices - 1))"
    using calculateEMA_rec[OF ne, of 26] assms by simp
  define m where "m = ema_rec (2 / 13) prices (length prices - 1) - ema_rec (2 / 27) prices (length prices - 1)"
  have sub: "js_sub (calculateEMA prices 12) (calculateEMA prices 26) = Num m"
    by (simp add: e12 e26 js_sub_def toNumber_def m_def)
  have "calculateMACD prices = \<lparr>macd = Num m, macd_signal = Num (m / 5), histogram = Num (m - m / 5)\<rparr>"
    using assms unfolding calculateMACD_def Let_def sub
    by (simp add: e12 e26 signal_seed or0_def js_sub_def toNumber_def)
  then show ?thesis unfolding m_def Let_def .
qed

lemma generate_Inr:
  assumes "generateTradingRecommendation now td sd = Inr res"
  obtains ti msd where "td_technicalIndicators td = Some ti" "sd_marketSentimentData sd = Some msd"
    "technicalAnalysisSignal (recommendation res) = technicalSignal (in_trend ti) (in_rsiSignal ti)"
    "marketSentimentSignal (recommendation res) = sentimentSignal (msd_interpretation msd)"
    "signal (recommendation res) = finalSignal (technicalAnalysisSignal (recommendation res)) (marketSentimentSignal (recommendation res))"
    "confidenceLevel (recommendation res) = confidenceOf (technicalAnalysisSignal (recommendation res)) (marketSentimentSignal (recommendation res)) (in_trend ti) (msd_interpretation msd)"
  using assms unfolding generateTradingRecommendation_def Let_def
  by (auto split: option.splits)

text \<open>Claim C1 (tie-break of decision fusion). Whenever \<open>generateTradingRecommendation\<close>
  accepts a technical/sentiment pair, the final signal equals the technical signal that is
  reported with it, and replacing the sentiment payload by any other accepted one leaves the
  final signal unchanged: the sentiment direction is reported but never changes the call.\<close>

theorem final_direction_is_technical_direction:
  assumes "generateTradingRecommendation now td sd = Inr res"
  shows "signal (recommendation res) = technicalAnalysisSignal (recommendation res)
       \<and> (\<forall>sd' res'. generateTradingRecommendation now td sd' = Inr res'
              \<longrightarrow> signal (recommendation res') = signal (recommendation res))"
proof -
  from assms obtain ti msd where ti: "td_technicalIndicators td = Some ti"
    and tech: "technicalAnalysisSignal (recommendation res) = technicalSignal (in_trend ti) (in_rsiSignal ti)"
    and fin: "signal (recommendation res) = finalSignal (technicalAnalysisSignal (recommendation res)) (marketSentimentSignal (recommendation res))"
    by (rule generate_Inr)
  have a: "signal (recommendation res) = technicalAnalysisSignal (recommendation res)"
    using fin by (simp add: finalSignal_def)
  have "signal (recommendation res') = signal (recommendation res)"
    if "generateTradingRecommendation now td sd' = Inr res'" for sd' res'
  proof -
    from that obtain ti' msd' where ti': "td_technicalIndicators td = Some ti'"
      and tech': "technicalAnalysisSignal (recommendation res') = technicalSignal (in_trend ti') (in_rsiSignal ti')"
      and fin': "signal (recommendation res') = finalSignal (technicalAnalysisSignal (recommendation res')) (marketSentimentSignal (recommendation res'))"
      by (rule generate_Inr)
    from ti ti' have "ti' = ti" by simp
    with tech tech' fin' a show ?thesis by (simp add: finalSignal_def)
  qed
  with a show ?thesis by blast
qed

theorem final_direction_is_technical_direction_witness:
  "signal (recommendation (projr (generateTradingRecommendation ''t''
       (technicalOf ''strongly bullish'' ''overbought'') (sentimentOf ''bullish'')))) = ''SHORT''
   \<and> marketSentimentSignal (recommendation (projr (generateTradingRecommendation ''t''
       (technicalOf ''strongly bullish'' ''overbought'') (sentimentOf ''bullish'')))) = ''LONG''
   \<and> technicalAnalysisSignal (recommendation (projr (generateTradingRecommendation ''t''
       (technicalOf ''strongly bullish'' ''overbought'') (sentimentOf ''bullish'')))) = ''SHORT''"
proof -
  let ?r = "generateTradingRecommendation ''t''
       (technicalOf ''strongly bullish'' ''overbought'') (sentimentOf ''bullish'')"
  have ok: "?r = Inr (projr ?r)"
    by (simp add: generateTradingRecommendation_def technicalOf_def sentimentOf_def Let_def)
  have vals: "technicalAnalysisSignal (recommendation (projr ?r)) = ''SHORT''"
    "marketSentimentSignal (recommendation (projr ?r)) = ''LONG''"
    by (simp_all add: generateTradingRecommendation_def technicalOf_def sentimentOf_def Let_def
        technicalSignal_def trendSignal_def rsiOverride_def sentimentSignal_def)
  from final_direction_is_technical_direction [OF ok] vals show ?thesis by simp
qed

text \<open>Claim C2 (technical direction). In an accepted call the technical signal is read off the
  trend label and the momentum signal: a bullish or strongly bullish trend gives \<open>LONG\<close>, a
  bearish or strongly bearish trend gives \<open>SHORT\<close>, every other label (neutral) gives \<open>LONG\<close>
  in the first step, so that the first step yields \<open>SHORT\<close> for the two bearish labels only;
  then \<open>overbought\<close> turns \<open>LONG\<close> into \<open>SHORT\<close> and \<open>oversold\<close> turns \<open>SHORT\<close> into
  \<open>LONG\<close>.\<close>

theorem technical_direction_derivation:
  assumes "generateTradingRecommendation now td sd = Inr res"
    and "td_technicalIndicators td = Some ti"
  shows "(in_trend ti = ''strongly bullish'' \<or> in_trend ti = ''bullish'' \<longrightarrow>
            technicalAnalysisSignal (recommendation res)
              = (if in_rsiSignal ti = ''overbought'' then ''SHORT'' else ''LONG''))
       \<and> (in_trend ti = ''strongly bearish'' \<or> in_trend ti = ''bearish'' \<longrightarrow>
            technicalAnalysisSignal (recommendation res)
              = (if in_rsiSignal ti = ''oversold'' then ''LONG'' else ''SHORT''))
       \<and> (in_trend ti \<notin> {''strongly bullish'', ''bullish'', ''strongly bearish'', ''bearish''} \<longrightarrow>
            technicalAnalysisSignal (recommendation res)
              = (if in_rsiSignal ti = ''overbought'' then ''SHORT'' else ''LONG''))
       \<and> technicalAnalysisSignal (recommendation res)
            = rsiOverride (in_rsiSignal ti) (trendSignal (in_trend ti))
       \<and> trendSignal ''neutral'' = ''LONG''
       \<and> (trendSignal (in_trend ti) = ''SHORT''
            \<longleftrightarrow> in_trend ti = ''strongly bearish'' \<or> in_trend ti = ''bearish'')
       \<and> (trendSignal (in_trend ti) = ''LONG''
            \<longleftrightarrow> \<not> (in_trend ti = ''strongly bearish'' \<or> in_trend ti = ''bearish''))"
proof -
  from assms(1) obtain ti' msd where "td_technicalIndicators td = Some ti'"
    and "technicalAnalysisSignal (recommendation res) = technicalSignal (in_trend ti') (in_rsiSignal ti')"
    by (rule generate_Inr)
  with assms(2) have tech: "technicalAnalysisSignal (recommendation res) = technicalSignal (in_trend ti) (in_rsiSignal ti)"
    by simp
  show ?thesis unfolding tech
    by (simp add: technicalSignal_def trendSignal_def rsiOverride_def)
qed

theorem technical_direction_derivation_witness:
  "technicalAnalysisSignal (recommendation (projr (generateTradingRecommendation ''t''
       (technicalOf ''neutral'' ''overbought'') (sentimentOf ''bullish'')))) = ''SHORT''
   \<and> technicalAnalysisSignal (recommendation (projr (generateTradingRecommendation ''t''
       (technicalOf ''bearish'' ''oversold'') (sentimentOf ''bullish'')))) = ''LONG''
   \<and> technicalAnalysisSignal (recommendation (projr (generateTradingRecommendation ''t''
       (technicalOf ''strongly bullish'' ''neutral'') (sentimentOf ''bullish'')))) = ''LONG''"
proof -
  have ok: "generateTradingRecommendation ''t'' (technicalOf t r) (sentimentOf ''bullish'')
      = Inr (projr (generateTradingRecommendation ''t'' (technicalOf t r) (sentimentOf ''bullish'')))" for t r
    by (simp add: generateTradingRecommendation_def technicalOf_def sentimentOf_def Let_def)
  have ti: "td_technicalIndicators (technicalOf t r) =
      Some \<lparr>in_sma = \<lparr>in_sma7 = Num 10, in_sma25 = Null, in_sma99 = Num 10,
                        in_aboveSMA7 = False, in_aboveSMA25 = True, in_aboveSMA99 = False\<rparr>,
              in_rsi = Num 100, in_rsiSignal = r, in_trend = t\<rparr>" for t r
    by (simp add: technicalOf_def)
  show ?thesis
    using technical_direction_derivation
        [OF ok [of "''neutral''" "''overbought''"] ti [of "''neutral''" "''overbought''"]]
      technical_direction_derivation
        [OF ok [of "''bearish''" "''oversold''"] ti [of "''bearish''" "''oversold''"]]
      technical_direction_derivation
        [OF ok [of "''strongly bullish''" "''neutral''"] ti [of "''strongly bullish''" "''neutral''"]]
    by simp
qed

text \<open>Claim C3 (confidence). In an accepted call the confidence is \<open>low\<close> whenever the technical
  and the sentiment signal differ; it is \<open>high\<close> when they agree and the trend label contains
  \<open>strongly\<close> or the sentiment label contains \<open>extremely\<close>; it is \<open>medium\<close> in every
  other case.\<close>

theorem confidence_assignment:
  assumes "generateTradingRecommendation now td sd = Inr res"
    and "td_technicalIndicators td = Some ti"
    and "sd_marketSentimentData sd = Some msd"
  shows "(technicalAnalysisSignal (recommendation res) \<noteq> marketSentimentSignal (recommendation res)
            \<longrightarrow> confidenceLevel (recommendation res) = ''low'')
       \<and> (technicalAnalysisSignal (recommendation res) = marketSentimentSignal (recommendation res)
            \<and> (str_includes (in_trend ti) ''strongly'' \<or> str_includes (msd_interpretation msd) ''extremely'')
            \<longrightarrow> confidenceLevel (recommendation res) = ''high'')
       \<and> (technicalAnalysisSignal (recommendation res) = marketSentimentSignal (recommendation res)
            \<and> \<not> (str_includes (in_trend ti) ''strongly'' \<or> str_includes (msd_interpretation msd) ''extremely'')
            \<longrightarrow> confidenceLevel (recommendation res) = ''medium'')"
proof -
  from assms(1) obtain ti' msd' where "td_technicalIndicators td = Some ti'" "sd_marketSentimentData sd = Some msd'"
    and "confidenceLevel (recommendation res) = confidenceOf (technicalAnalysisSignal (recommendation res)) (marketSentimentSignal (recommendation res)) (in_trend ti') (msd_interpretation msd')"
    by (rule generate_Inr)
  with assms(2,3) have "confidenceLevel (recommendation res) = confidenceOf (technicalAnalysisSignal (recommendation res)) (marketSentimentSignal (recommendation res)) (in_trend ti) (msd_interpretation msd)"
    by simp
  then show ?thesis by (simp add: confidenceOf_def)
qed

theorem confidence_assignment_witness:
  "confidenceLevel (recommendation (projr (generateTradingRecommendation ''t''
       (technicalOf ''strongly bullish'' ''overbought'') (sentimentOf ''bullish'')))) = ''low''
   \<and> confidenceLevel (recommendation (projr (generateTradingRecommendation ''t''
       (technicalOf ''strongly bullish'' ''overbought'')
       (sentimentOf ''extremely bullish (potentially overbought)'')))) = ''high''
   \<and> confidenceLevel (recommendation (projr (generateTradingRecommendation ''t''
       (technicalOf ''bullish'' ''neutral'') (sentimentOf ''bullish'')))) = ''medium''"
proof -
  have ok: "generateTradingRecommendation ''t'' (technicalOf t r) (sentimentOf l)
      = Inr (projr (generateTradingRecommendation ''t'' (technicalOf t r) (sentimentOf l)))" for t r l
    by (simp add: generateTradingRecommendation_def technicalOf_def sentimentOf_def Let_def)
  have ti: "td_technicalIndicators (technicalOf t r) =
      Some \<lparr>in_sma = \<lparr>in_sma7 = Num 10, in_sma25 = Null, in_sma99 = Num 10,
                        in_aboveSMA7 = False, in_aboveSMA25 = True, in_aboveSMA99 = False\<rparr>,
              in_rsi = Num 100, in_rsiSignal = r, in_trend = t\<rparr>" for t r
    by (simp add: technicalOf_def)
  have msd: "sd_marketSentimentData (sentimentOf l) =
      Some \<lparr>globalFearGreedIndex =
                \<lparr>fg_value = 50, fg_description = ''Neutral'', fg_classification = ''Neutral''\<rparr>,
              msd_interpretation = l,
              ms_timestamp = ''1700000000'', timeUpdated = ''3600''\<rparr>" for l
    by (simp add: sentimentOf_def)
  have sigs:
    "technicalAnalysisSignal (recommendation (projr (generateTradingRecommendation ''t''
       (technicalOf t r) (sentimentOf l)))) = technicalSignal t r"
    "marketSentimentSignal (recommendation (projr (generateTradingRecommendation ''t''
       (technicalOf t r) (sentimentOf l)))) = sentimentSignal l" for t r l
    by (simp_all add: generateTradingRecommendation_def technicalOf_def sentimentOf_def Let_def)
  have v: "technicalSignal ''strongly bullish'' ''overbought'' = ''SHORT''"
    "technicalSignal ''bullish'' ''neutral'' = ''LONG''"
    "sentimentSignal ''bullish'' = ''LONG''"
    "sentimentSignal ''extremely bullish (potentially overbought)'' = ''SHORT''"
    by (simp_all add: technicalSignal_def trendSignal_def rsiOverride_def sentimentSignal_def)
  show ?thesis
    using confidence_assignment [OF ok [of "''strongly bullish''" "''overbought''" "''bullish''"]
        ti [of "''strongly bullish''" "''overbought''"] msd [of "''bullish''"]]
      confidence_assignment [OF ok [of "''strongly bullish''" "''overbought''"
          "''extremely bullish (potentially overbought)''"]
        ti [of "''strongly bullish''" "''overbought''"]
        msd [of "''extremely bullish (potentially overbought)''"]]
      confidence_assignment [OF ok [of "''bullish''" "''neutral''" "''bullish''"]
        ti [of "''bullish''" "''neutral''"] msd [of "''bullish''"]]
    by (simp add: sigs v)
qed

lemma analyzeMarketSentiment_cases:
  "analyzeMarketSentiment idx = ''extremely bearish (potentially oversold)''
   \<or> analyzeMarketSentiment idx = ''bearish''
   \<or> analyzeMarketSentiment idx = ''neutral''
   \<or> analyzeMarketSentiment idx = ''bullish''
   \<or> analyzeMarketSentiment idx = ''extremely bullish (potentially overbought)''"
  by (cases idx) (simp_all add: analyzeMarketSentiment_def fearGreedDescriptionOf_def marketSentimentOf_def)

text \<open>Claim C4 (sentiment direction). For every label \<open>l\<close> that the sentiment normalizer
  assigns, the sentiment signal is \<open>LONG\<close> when \<open>l\<close> contains \<open>bullish\<close>, except for the
  extremely bullish label, where it is \<open>SHORT\<close>; it is \<open>SHORT\<close> when \<open>l\<close> contains
  \<open>bearish\<close>, except for the extremely bearish label, where it is \<open>LONG\<close>; and every
  string that contains neither word gives \<open>LONG\<close>.\<close>

theorem sentiment_direction_derivation:
  assumes "l = analyzeMarketSentiment idx"
  shows "sentimentSignal l =
      (if str_includes l ''bullish'' then
         (if l = ''extremely bullish (potentially overbought)'' then ''SHORT'' else ''LONG'')
       else if str_includes l ''bearish'' then
         (if l = ''extremely bearish (potentially oversold)'' then ''LONG'' else ''SHORT'')
       else ''LONG'')
     \<and> (\<forall>s. \<not> str_includes s ''bullish'' \<and> \<not> str_includes s ''bearish''
            \<longrightarrow> sentimentSignal s = ''LONG'')"
proof -
  have "sentimentSignal l =
      (if str_includes l ''bullish'' then
         (if l = ''extremely bullish (potentially overbought)'' then ''SHORT'' else ''LONG'')
       else if str_includes l ''bearish'' then
         (if l = ''extremely bearish (potentially oversold)'' then ''LONG'' else ''SHORT'')
       else ''LONG'')"
    using analyzeMarketSentiment_cases [of idx]
  proof (elim disjE)
    assume "analyzeMarketSentiment idx = ''extremely bearish (potentially oversold)''"
    then show ?thesis by (simp add: sentimentSignal_def assms)
  next
    assume "analyzeMarketSentiment idx = ''bearish''"
    then show ?thesis by (simp add: sentimentSignal_def assms)
  next
    assume "analyzeMarketSentiment idx = ''neutral''"
    then show ?thesis by (simp add: sentimentSignal_def assms)
  next
    assume "analyzeMarketSentiment idx = ''bullish''"
    then show ?thesis by (simp add: sentimentSignal_def assms)
  next
    assume "analyzeMarketSentiment idx = ''extremely bullish (potentially overbought)''"
    then show ?thesis by (simp add: sentimentSignal_def assms)
  qed
  moreover have "\<forall>s. \<not> str_includes s ''bullish'' \<and> \<not> str_includes s ''bearish''
            \<longrightarrow> sentimentSignal s = ''LONG''"
    by (simp add: sentimentSignal_def)
  ultimately show ?thesis by (rule conjI)
qed

theorem sentiment_direction_derivation_witness:
  "analyzeMarketSentiment (Some 80) = ''extremely bullish (potentially overbought)''
   \<and> sentimentSignal (analyzeMarketSentiment (Some 80)) = ''SHORT''
   \<and> sentimentSignal (analyzeMarketSentiment (Some 60)) = ''LONG''
   \<and> sentimentSignal (analyzeMarketSentiment (Some 10)) = ''LONG''
   \<and> sentimentSignal (analyzeMarketSentiment (Some 30)) = ''SHORT''
   \<and> sentimentSignal (analyzeMarketSentiment (Some 50)) = ''LONG''"
proof -
  have l: "analyzeMarketSentiment (Some 80) = ''extremely bullish (potentially overbought)''"
    "analyzeMarketSentiment (Some 60) = ''bullish''"
    "analyzeMarketSentiment (Some 10) = ''extremely bearish (potentially oversold)''"
    "analyzeMarketSentiment (Some 30) = ''bearish''"
    "analyzeMarketSentiment (Some 50) = ''neutral''"
    by (simp_all add: analyzeMarketSentiment_def fearGreedDescriptionOf_def marketSentimentOf_def)
  show ?thesis
    using sentiment_direction_derivation [OF refl, of "Some 80"]
      sentiment_direction_derivation [OF refl, of "Some 60"]
      sentiment_direction_derivation [OF refl, of "Some 10"]
      sentiment_direction_derivation [OF refl, of "Some 30"]
      sentiment_direction_derivation [OF refl, of "Some 50"]
    by (simp add: l)
qed

text \<open>Claim C5 (simple moving average). With fewer than \<open>P\<close> points \<open>calculateSMA\<close> returns
  \<open>null\<close>; with a period \<open>P > 0\<close> and at least \<open>P\<close> points it returns the arithmetic mean
  of the last \<open>P\<close> closes, which for a series of exactly \<open>P\<close> points is the mean of the
  whole series.\<close>

theorem sma_contract:
  "(length prices < P \<longrightarrow> calculateSMA prices P = Null)
   \<and> (calculateSMA prices P = Null \<longleftrightarrow> length prices < P)
   \<and> (0 < P \<and> P \<le> length prices \<longrightarrow> calculateSMA prices P = Num (mean (lastN P prices)))
   \<and> (0 < P \<and> length prices = P \<longrightarrow> calculateSMA prices P = Num (mean prices))"
proof -
  have a: "calculateSMA prices P = Null \<longleftrightarrow> length prices < P"
    by (simp add: calculateSMA_def Let_def)
  have b: "calculateSMA prices P = Num (mean (lastN P prices))" if "0 < P" "P \<le> length prices"
    using that by (rule calculateSMA_mean)
  have c: "calculateSMA prices P = Num (mean prices)" if "0 < P" "length prices = P"
    using b that by (simp add: lastN_def)
  from a b c show ?thesis by blast
qed

theorem sma_contract_witness:
  "calculateSMA [10, 10, 10, 10, 10, 10, 10, 10] 7 = Num 10
   \<and> calculateSMA [1, 2, 6] 3 = Num 3
   \<and> calculateSMA [1, 2, 6] 7 = Null"
  using sma_contract [of "[10, 10, 10, 10, 10, 10, 10, 10]" 7]
    sma_contract [of "[1, 2, 6]" 3] sma_contract [of "[1, 2, 6]" 7]
  by (simp add: mean_def lastN_def)

text \<open>Claim C9 (exponential moving average). With fewer than \<open>P\<close> points \<open>calculateEMA\<close>
  returns \<open>null\<close>; otherwise, on a non-empty series, it returns the last value of the
  recurrence \<open>ema[i] = price[i] * k + ema[i - 1] * (1 - k)\<close> with \<open>k = 2 / (P + 1)\<close>, seeded
  with the first price and run over the whole series.\<close>

theorem ema_contract:
  "(length prices < P \<longrightarrow> calculateEMA prices P = Null)
   \<and> (prices \<noteq> [] \<and> P \<le> length prices \<longrightarrow>
        calculateEMA prices P = Num (ema_rec (2 / (real P + 1)) prices (length prices - 1)))"
  using calculateEMA_rec [of prices P] by (simp add: calculateEMA_def)

theorem ema_contract_witness:
  "calculateEMA [1, 2, 3] 2 = Num (23 / 9)
   \<and> calculateEMA [2, 3] 2 = Num (8 / 3)
   \<and> calculateEMA [1, 2, 3] 4 = Null"
  using ema_contract [of "[1, 2, 3]" 2] ema_contract [of "[2, 3]" 2] ema_contract [of "[1, 2, 3]" 4]
  by (simp add: eval_nat_numeral)

text \<open>Claim C6 as amended (momentum oscillator). For a period \<open>P > 0\<close>: with \<open>P\<close> or fewer
  points \<open>calculateRSI\<close> returns \<open>null\<close>; with more than \<open>P\<close> points it returns a number
  between \<open>0\<close> and \<open>100\<close>, except that it returns \<^verbatim>\<open>NaN\<close> exactly when the average gain and
  the average loss over the window have both overflowed to \<^verbatim>\<open>Infinity\<close>, which cannot happen
  when no close exceeds \<open>2 ^ 1000\<close> in magnitude and \<open>P\<close> is at most \<open>2 ^ 20\<close>. It returns
  exactly \<open>100\<close> when the average loss over the last \<open>P\<close> deltas is zero, which is the case
  whenever no close of the window is below its predecessor.\<close>

theorem rsi_range_unless_overflow:
  assumes "0 < P"
  shows "(length prices \<le> P \<longrightarrow> calculateRSI prices P = Null)
   \<and> (P < length prices \<longrightarrow>
        (calculateRSI prices P = NaN \<longleftrightarrow> avgGain prices P = PInf \<and> avgLoss prices P = PInf))
   \<and> (P < length prices \<and> \<not> (avgGain prices P = PInf \<and> avgLoss prices P = PInf) \<longrightarrow>
        (\<exists>v. calculateRSI prices P = Num v \<and> 0 \<le> v \<and> v \<le> 100))
   \<and> (P < length prices \<and> P \<le> 2 ^ 20 \<and> (\<forall>p\<in>set prices. \<bar>p\<bar> \<le> 2 ^ 1000) \<longrightarrow>
        (\<exists>v. calculateRSI prices P = Num v \<and> 0 \<le> v \<and> v \<le> 100))
   \<and> (P < length prices \<and> avgLoss prices P = Fin 0 \<longrightarrow> calculateRSI prices P = Num 100)
   \<and> (P < length prices
        \<and> (\<forall>i. length prices - P \<le> i \<and> i < length prices \<longrightarrow> prices ! (i - 1) \<le> prices ! i)
        \<longrightarrow> calculateRSI prices P = Num 100)"
proof -
  have g: "nonneg_d (avgGain prices P)" and l: "nonneg_d (avgLoss prices P)"
    using assms by (rule avgGain_nonneg, rule avgLoss_nonneg)
  have a: "length prices \<le> P \<longrightarrow> calculateRSI prices P = Null"
    by (simp add: calculateRSI_def)
  have e: "calculateRSI prices P = Num 100" if "P < length prices" "avgLoss prices P = Fin 0"
    using that by (simp add: calculateRSI_def)
  have c: "\<exists>v. calculateRSI prices P = Num v \<and> 0 \<le> v \<and> v \<le> 100"
    if "P < length prices" "\<not> (avgGain prices P = PInf \<and> avgLoss prices P = PInf)"
  proof (cases "avgLoss prices P = Fin 0")
    case True
    with e [OF that(1)] show ?thesis by simp
  next
    case False
    from rsi_of_range [OF g l False that(2)]
    obtain v where "rsi_of (avgGain prices P) (avgLoss prices P) = Fin v" "0 \<le> v" "v \<le> 100"
      by blast
    with that(1) False show ?thesis by (simp add: calculateRSI_def)
  qed
  have n: "calculateRSI prices P = NaN" if "P < length prices"
    "avgGain prices P = PInf" "avgLoss prices P = PInf"
    using that by (simp add: calculateRSI_def rsi_of_nan)
  have b: "calculateRSI prices P = NaN \<longleftrightarrow> avgGain prices P = PInf \<and> avgLoss prices P = PInf"
    if "P < length prices"
  proof
    assume "calculateRSI prices P = NaN"
    with c [OF that] show "avgGain prices P = PInf \<and> avgLoss prices P = PInf" by auto
  next
    assume "avgGain prices P = PInf \<and> avgLoss prices P = PInf"
    with n [OF that] show "calculateRSI prices P = NaN" by simp
  qed
  have d: "\<exists>v. calculateRSI prices P = Num v \<and> 0 \<le> v \<and> v \<le> 100"
    if "P < length prices" "P \<le> 2 ^ 20" "\<forall>p\<in>set prices. \<bar>p\<bar> \<le> 2 ^ 1000"
  proof -
    have "avgGain prices P \<noteq> PInf" using that(3) assms that(2) by (rule avgGain_finite)
    then show ?thesis by (intro c that(1)) simp
  qed
  have f: "calculateRSI prices P = Num 100"
    if "P < length prices"
      "\<forall>i. length prices - P \<le> i \<and> i < length prices \<longrightarrow> prices ! (i - 1) \<le> prices ! i"
  proof -
    have "avgLoss prices P = Fin 0" using assms that by (rule losses_window_zero)
    with e [OF that(1)] show ?thesis by simp
  qed
  from a b c d e f show ?thesis by blast
qed

theorem rsi_range_unless_overflow_witness:
  "calculateRSI [10, 10, 10, 10, 10, 10, 10, 10] 7 = Num 100
   \<and> calculateRSI [10, 10, 10, 10, 10, 10, 10, 10] 14 = Null"
proof -
  have z: "avgLoss [10, 10, 10, 10, 10, 10, 10, 10] 7 = Fin 0"
    by (simp add: avgLoss_def reduce_add_d_def slice_last_def losses_of_def changes_of_def
        d_sub_def fin_small eval_nat_numeral)
  show ?thesis
    using rsi_range_unless_overflow [of 7 "[10, 10, 10, 10, 10, 10, 10, 10]"]
      rsi_range_unless_overflow [of 14 "[10, 10, 10, 10, 10, 10, 10, 10]"] z
    by simp
qed

text \<open>Claim C6 as stated fails when the deltas overflow: on the finite series
  \<open>0, 2 ^ 1023, - (2 ^ 1023), 2 ^ 1023\<close> with period \<open>3\<close> the average gain and the average loss
  are both \<^verbatim>\<open>Infinity\<close> and the result is \<^verbatim>\<open>NaN\<close>, not a value between \<open>0\<close> and \<open>100\<close>.\<close>

theorem rsi_overflow_counterexample:
  "calculateRSI [0, 2 ^ 1023, - (2 ^ 1023), 2 ^ 1023] 3 = NaN"
proof -
  have p: "(0::real) < 2 ^ 1023" by simp
  have b: "overflow_bound \<le> 2 * 2 ^ 1023"
    using overflow_bound_le by simp
  show ?thesis
    by (rule calculateRSI_overflow [OF p overflow_bound_pos b])
qed

lemma performTechnicalAnalysis_Inr:
  assumes "prices \<noteq> []"
  obtains res where "performTechnicalAnalysis now sy tf prices = Inr res"
    "sma7 (sma (technicalIndicators res)) = calculateSMA prices 7"
    "sma25 (sma (technicalIndicators res)) = calculateSMA prices 25"
    "sma99 (sma (technicalIndicators res)) = calculateSMA prices (min 99 (length prices - 1))"
    "rsi (technicalIndicators res) = calculateRSI prices 14"
    "rsiSignal (technicalIndicators res) = rsiSignalOf (calculateRSI prices 14)"
  using assms by (simp add: performTechnicalAnalysis_def Let_def)

text \<open>Claim C7 as amended (momentum signal). For every computed oscillator value \<open>v\<close> the
  signal is \<open>oversold\<close> if and only if \<open>v < 30\<close>, \<open>overbought\<close> if and only if \<open>v > 70\<close>, and
  \<open>neutral\<close> otherwise; the values \<open>30\<close> and \<open>70\<close> themselves are \<open>neutral\<close>. An absent
  value is \<open>neutral\<close> too.\<close>

theorem rsi_signal_strict_thresholds:
  "(rsiSignalOf (Num v) = ''oversold'' \<longleftrightarrow> v < 30)
   \<and> (rsiSignalOf (Num v) = ''overbought'' \<longleftrightarrow> v > 70)
   \<and> (rsiSignalOf (Num v) = ''neutral'' \<longleftrightarrow> 30 \<le> v \<and> v \<le> 70)
   \<and> rsiSignalOf Null = ''neutral''
   \<and> (performTechnicalAnalysis now sy tf prices = Inr res \<longrightarrow>
        rsiSignal (technicalIndicators res) = rsiSignalOf (rsi (technicalIndicators res))
        \<and> rsi (technicalIndicators res) = calculateRSI prices 14)"
proof -
  have a: "(rsiSignalOf (Num v) = ''oversold'' \<longleftrightarrow> v < 30)
   \<and> (rsiSignalOf (Num v) = ''overbought'' \<longleftrightarrow> v > 70)
   \<and> (rsiSignalOf (Num v) = ''neutral'' \<longleftrightarrow> 30 \<le> v \<and> v \<le> 70)
   \<and> rsiSignalOf Null = ''neutral''"
    by (auto simp: rsiSignalOf_def js_gt_def js_lt_def toNumber_def)
  have b: "rsiSignal (technicalIndicators res) = rsiSignalOf (rsi (technicalIndicators res))
        \<and> rsi (technicalIndicators res) = calculateRSI prices 14"
    if "performTechnicalAnalysis now sy tf prices = Inr res"
  proof -
    from that have ne: "prices \<noteq> []"
      by (auto simp: performTechnicalAnalysis_def)
    from ne obtain res' where "performTechnicalAnalysis now sy tf prices = Inr res'"
      "rsi (technicalIndicators res') = calculateRSI prices 14"
      "rsiSignal (technicalIndicators res') = rsiSignalOf (calculateRSI prices 14)"
      by (rule performTechnicalAnalysis_Inr)
    with that show ?thesis by simp
  qed
  from a b show ?thesis by blast
qed

theorem rsi_signal_strict_thresholds_witness:
  "rsiSignalOf (Num 30) = ''neutral'' \<and> rsiSignalOf (Num 70) = ''neutral''
   \<and> rsiSignalOf (Num 29) = ''oversold'' \<and> rsiSignalOf (Num 71) = ''overbought''
   \<and> rsiSignal (technicalIndicators (projr (performTechnicalAnalysis ''t'' ''BTC'' ''daily'' [1, 2, 6])))
       = ''neutral''"
proof -
  have ok: "performTechnicalAnalysis ''t'' ''BTC'' ''daily'' [1, 2, 6]
      = Inr (projr (performTechnicalAnalysis ''t'' ''BTC'' ''daily'' [1, 2, 6]))"
    by (simp add: performTechnicalAnalysis_def Let_def)
  have r: "calculateRSI [1, 2, 6] 14 = Null"
    by (simp add: calculateRSI_def)
  show ?thesis
    using rsi_signal_strict_thresholds [of 30] rsi_signal_strict_thresholds [of 70]
      rsi_signal_strict_thresholds [of 29] rsi_signal_strict_thresholds [of 71]
      rsi_signal_strict_thresholds [of 0 "''t''" "''BTC''" "''daily''" "[1, 2, 6]"
        "projr (performTechnicalAnalysis ''t'' ''BTC'' ''daily'' [1, 2, 6])"] ok r
    by simp
qed

text \<open>Claim C7 as stated fails at the thresholds: a series whose oscillator value is exactly
  \<open>30\<close> is classified \<open>neutral\<close>, not \<open>oversold\<close>, and one whose value is exactly \<open>70\<close>
  is classified \<open>neutral\<close>, not \<open>overbought\<close>.\<close>

theorem rsi_signal_boundary_counterexample:
  "calculateRSI [10, 13, 6, 6, 6, 6, 6, 6, 6, 6, 6, 6, 6, 6, 6] 14 = Num 30
   \<and> rsiSignalOf (calculateRSI [10, 13, 6, 6, 6, 6, 6, 6, 6, 6, 6, 6, 6, 6, 6] 14) = ''neutral''
   \<and> rsiSignalOf (calculateRSI [10, 13, 6, 6, 6, 6, 6, 6, 6, 6, 6, 6, 6, 6, 6] 14) \<noteq> ''oversold''
   \<and> calculateRSI [10, 17, 14, 14, 14, 14, 14, 14, 14, 14, 14, 14, 14, 14, 14] 14 = Num 70
   \<and> rsiSignalOf (calculateRSI [10, 17, 14, 14, 14, 14, 14, 14, 14, 14, 14, 14, 14, 14, 14] 14)
       = ''neutral''
   \<and> rsiSignalOf (calculateRSI [10, 17, 14, 14, 14, 14, 14, 14, 14, 14, 14, 14, 14, 14, 14] 14)
       \<noteq> ''overbought''"
proof -
  have a: "calculateRSI [10, 13, 6, 6, 6, 6, 6, 6, 6, 6, 6, 6, 6, 6, 6] 14 = Num 30"
    by (simp add: calculateRSI_def avgGain_def avgLoss_def rsi_of_def Let_def reduce_add_d_def
        slice_last_def losses_of_def gains_of_def changes_of_def d_sub_def fin_small
        eval_nat_numeral)
  have b: "calculateRSI [10, 17, 14, 14, 14, 14, 14, 14, 14, 14, 14, 14, 14, 14, 14] 14 = Num 70"
    by (simp add: calculateRSI_def avgGain_def avgLoss_def rsi_of_def Let_def reduce_add_d_def
        slice_last_def losses_of_def gains_of_def changes_of_def d_sub_def fin_small
        eval_nat_numeral)
  have c: "rsiSignalOf (Num 30) = ''neutral''" "rsiSignalOf (Num 70) = ''neutral''"
    by (simp_all add: rsiSignalOf_def js_gt_def js_lt_def toNumber_def)
  show ?thesis unfolding a b using c by simp
qed

lemma macdSignalOf_nulls:
  "macdSignalOf \<lparr>macd = Null, macd_signal = Null, histogram = Null\<rparr> price = ''neutral''"
  by (simp add: macdSignalOf_def)

text \<open>Claim C8 (momentum-convergence oscillator). The three fields of \<open>calculateMACD\<close> are
  \<open>null\<close> if and only if the series has fewer than 26 points (and then each of them is). With
  26 points or more the main line is EMA(12) minus EMA(26) over the whole series, the signal
  is the 9-period EMA of eight zeros followed by the main-line value (one fifth of it), and the
  histogram is main line minus signal. With fewer than 26 points the momentum-convergence
  classification is \<open>neutral\<close>.\<close>

theorem macd_contract:
  "((macd (calculateMACD prices) = Null \<and> macd_signal (calculateMACD prices) = Null
        \<and> histogram (calculateMACD prices) = Null) \<longleftrightarrow> length prices < 26)
   \<and> ((macd (calculateMACD prices) = Null \<or> macd_signal (calculateMACD prices) = Null
        \<or> histogram (calculateMACD prices) = Null) \<longleftrightarrow> length prices < 26)
   \<and> (26 \<le> length prices \<longrightarrow>
        (\<exists>e12 e26.
           calculateEMA prices 12 = Num e12 \<and> calculateEMA prices 26 = Num e26
           \<and> e12 = ema_rec (2 / 13) prices (length prices - 1)
           \<and> e26 = ema_rec (2 / 27) prices (length prices - 1)
           \<and> macd (calculateMACD prices) = Num (e12 - e26)
           \<and> macd_signal (calculateMACD prices) = calculateEMA (replicate 8 0 @ [e12 - e26]) 9
           \<and> macd_signal (calculateMACD prices) = Num ((e12 - e26) / 5)
           \<and> histogram (calculateMACD prices) = Num ((e12 - e26) - (e12 - e26) / 5)))
   \<and> (length prices < 26 \<longrightarrow>
        macdSignalOf (calculateMACD prices) price = ''neutral''
        \<and> macdSignal (fst (shortTermOf tf prices price)) = ''neutral'')"
proof (cases "length prices < 26")
  case True
  have m: "calculateMACD prices = \<lparr>macd = Null, macd_signal = Null, histogram = Null\<rparr>"
    using True by (rule calculateMACD_short)
  have "macdSignal (fst (shortTermOf tf prices price)) = macdSignalOf (calculateMACD prices) price"
    by (simp add: shortTermOf_def Let_def)
  with True show ?thesis by (simp add: m macdSignalOf_nulls)
next
  case False
  then have len: "26 \<le> length prices" by simp
  then have ne: "prices \<noteq> []" by auto
  define e12 where "e12 = ema_rec (2 / 13) prices (length prices - 1)"
  define e26 where "e26 = ema_rec (2 / 27) prices (length prices - 1)"
  have c12: "calculateEMA prices 12 = Num e12"
    using calculateEMA_rec [OF ne, of 12] len by (simp add: e12_def)
  have c26: "calculateEMA prices 26 = Num e26"
    using calculateEMA_rec [OF ne, of 26] len by (simp add: e26_def)
  have m: "calculateMACD prices =
      \<lparr>macd = Num (e12 - e26), macd_signal = Num ((e12 - e26) / 5),
       histogram = Num ((e12 - e26) - (e12 - e26) / 5)\<rparr>"
    using calculateMACD_long [OF len] unfolding Let_def e12_def e26_def .
  have s: "calculateEMA (replicate 8 0 @ [e12 - e26]) 9 = Num ((e12 - e26) / 5)"
    by (rule signal_seed)
  have "\<exists>a b. calculateEMA prices 12 = Num a \<and> calculateEMA prices 26 = Num b
           \<and> a = ema_rec (2 / 13) prices (length prices - 1)
           \<and> b = ema_rec (2 / 27) prices (length prices - 1)
           \<and> macd (calculateMACD prices) = Num (a - b)
           \<and> macd_signal (calculateMACD prices) = calculateEMA (replicate 8 0 @ [a - b]) 9
           \<and> macd_signal (calculateMACD prices) = Num ((a - b) / 5)
           \<and> histogram (calculateMACD prices) = Num ((a - b) - (a - b) / 5)"
    apply (rule exI [of _ e12])
    apply (rule exI [of _ e26])
    unfolding m s c12 c26
    by (simp add: e12_def e26_def)
  then have ex: "26 \<le> length prices \<longrightarrow>
        (\<exists>a b. calculateEMA prices 12 = Num a \<and> calculateEMA prices 26 = Num b
           \<and> a = ema_rec (2 / 13) prices (length prices - 1)
           \<and> b = ema_rec (2 / 27) prices (length prices - 1)
           \<and> macd (calculateMACD prices) = Num (a - b)
           \<and> macd_signal (calculateMACD prices) = calculateEMA (replicate 8 0 @ [a - b]) 9
           \<and> macd_signal (calculateMACD prices) = Num ((a - b) / 5)
           \<and> histogram (calculateMACD prices) = Num ((a - b) - (a - b) / 5))"
    by (rule impI)
  have nn: "macd (calculateMACD prices) \<noteq> Null" "macd_signal (calculateMACD prices) \<noteq> Null"
    "histogram (calculateMACD prices) \<noteq> Null"
    unfolding m by simp_all
  have all: "(macd (calculateMACD prices) = Null \<and> macd_signal (calculateMACD prices) = Null
        \<and> histogram (calculateMACD prices) = Null) \<longleftrightarrow> length prices < 26"
    using False nn by simp
  have some: "(macd (calculateMACD prices) = Null \<or> macd_signal (calculateMACD prices) = Null
        \<or> histogram (calculateMACD prices) = Null) \<longleftrightarrow> length prices < 26"
    using False nn by simp
  have short: "length prices < 26 \<longrightarrow>
        macdSignalOf (calculateMACD prices) price = ''neutral''
        \<and> macdSignal (fst (shortTermOf tf prices price)) = ''neutral''"
    using False by simp
  from all some ex short show ?thesis by (intro conjI)
qed

theorem macd_contract_witness:
  "macd (calculateMACD [1, 2, 3]) = Null
   \<and> macd_signal (calculateMACD [1, 2, 3]) = Null
   \<and> histogram (calculateMACD [1, 2, 3]) = Null
   \<and> macdSignalOf (calculateMACD [1, 2, 3]) 3 = ''neutral''
   \<and> macd (calculateMACD (replicate 26 1 @ [2])) = Num (28 / 351)
   \<and> macd_signal (calculateMACD (replicate 26 1 @ [2])) = Num (28 / 1755)
   \<and> histogram (calculateMACD (replicate 26 1 @ [2])) = Num (112 / 1755)"
proof -
  have short: "macd (calculateMACD [1, 2, 3]) = Null
   \<and> macd_signal (calculateMACD [1, 2, 3]) = Null
   \<and> histogram (calculateMACD [1, 2, 3]) = Null
   \<and> macdSignalOf (calculateMACD [1, 2, 3]) 3 = ''neutral''"
    using macd_contract [of "[1, 2, 3]" 3 "''1m''"] by simp
  have len: "26 \<le> length (replicate 26 1 @ [2 :: real])" by simp
  have e: "ema_rec (2 / 13) (replicate 26 1 @ [2]) (length (replicate 26 1 @ [2 :: real]) - 1) = 15 / 13"
    "ema_rec (2 / 27) (replicate 26 1 @ [2]) (length (replicate 26 1 @ [2 :: real]) - 1) = 29 / 27"
    by (simp_all add: eval_nat_numeral)
  note long = macd_contract [of "replicate 26 1 @ [2]" 2 "''1m''",
      THEN conjunct2, THEN conjunct2, THEN conjunct1, THEN mp, OF len]
  then obtain e12 e26 where
    v: "e12 = ema_rec (2 / 13) (replicate 26 1 @ [2]) (length (replicate 26 1 @ [2 :: real]) - 1)"
      "e26 = ema_rec (2 / 27) (replicate 26 1 @ [2]) (length (replicate 26 1 @ [2 :: real]) - 1)"
    and m: "macd (calculateMACD (replicate 26 1 @ [2])) = Num (e12 - e26)"
      "macd_signal (calculateMACD (replicate 26 1 @ [2])) = Num ((e12 - e26) / 5)"
      "histogram (calculateMACD (replicate 26 1 @ [2])) = Num ((e12 - e26) - (e12 - e26) / 5)"
    by (elim exE conjE)
  have "e12 - e26 = 28 / 351" unfolding v e by simp
  with m have "macd (calculateMACD (replicate 26 1 @ [2])) = Num (28 / 351)
   \<and> macd_signal (calculateMACD (replicate 26 1 @ [2])) = Num (28 / 1755)
   \<and> histogram (calculateMACD (replicate 26 1 @ [2])) = Num (112 / 1755)"
    by simp
  with short show ?thesis by simp
qed

text \<open>Claim C10 (long average of the position classifier). The field \<open>sma99\<close> is the simple
  moving average of period \<open>min 99 (length - 1)\<close>. For every series of at least two points it
  is a number, the mean of the last \<open>min 99 (length - 1)\<close> closes, whereas \<open>sma7\<close> and
  \<open>sma25\<close> are absent exactly below 7 and 25 points.\<close>

theorem sma99_period_is_capped:
  assumes "2 \<le> length prices"
  shows "\<exists>res. performTechnicalAnalysis now sy tf prices = Inr res
     \<and> sma99 (sma (technicalIndicators res)) = calculateSMA prices (min 99 (length prices - 1))
     \<and> sma99 (sma (technicalIndicators res))
         = Num (mean (lastN (min 99 (length prices - 1)) prices))
     \<and> sma99 (sma (technicalIndicators res)) \<noteq> Null
     \<and> (sma7 (sma (technicalIndicators res)) = Null \<longleftrightarrow> length prices < 7)
     \<and> (sma25 (sma (technicalIndicators res)) = Null \<longleftrightarrow> length prices < 25)"
proof -
  from assms have ne: "prices \<noteq> []" by auto
  from ne obtain res where res: "performTechnicalAnalysis now sy tf prices = Inr res"
    and s7: "sma7 (sma (technicalIndicators res)) = calculateSMA prices 7"
    and s25: "sma25 (sma (technicalIndicators res)) = calculateSMA prices 25"
    and s99: "sma99 (sma (technicalIndicators res)) = calculateSMA prices (min 99 (length prices - 1))"
    by (rule performTechnicalAnalysis_Inr)
  have "0 < min 99 (length prices - 1)" "min 99 (length prices - 1) \<le> length prices"
    using assms by auto
  then have m: "calculateSMA prices (min 99 (length prices - 1))
      = Num (mean (lastN (min 99 (length prices - 1)) prices))"
    by (rule calculateSMA_mean)
  have n7: "calculateSMA prices 7 = Null \<longleftrightarrow> length prices < 7"
    by (simp add: calculateSMA_def Let_def)
  have n25: "calculateSMA prices 25 = Null \<longleftrightarrow> length prices < 25"
    by (simp add: calculateSMA_def Let_def)
  show ?thesis
    apply (rule exI [of _ res])
    unfolding s7 s25 s99 n7 n25 m
    using res by simp
qed

theorem sma99_period_is_capped_witness:
  "sma99 (sma (technicalIndicators (projr (performTechnicalAnalysis ''t'' ''BTC'' ''daily'' [1, 2, 6]))))
     = Num 4
   \<and> sma7 (sma (technicalIndicators (projr (performTechnicalAnalysis ''t'' ''BTC'' ''daily'' [1, 2, 6]))))
     = Null
   \<and> sma25 (sma (technicalIndicators (projr (performTechnicalAnalysis ''t'' ''BTC'' ''daily'' [1, 2, 6]))))
     = Null"
proof -
  have len: "2 \<le> length [1, 2, 6 :: real]" by simp
  have m: "mean (lastN (min 99 (length [1, 2, 6 :: real] - 1)) [1, 2, 6]) = 4"
    by (simp add: mean_def lastN_def)
  from sma99_period_is_capped [OF len, of "''t''" "''BTC''" "''daily''"] show ?thesis
    unfolding m by auto
qed

end
